theory Spec2Isabelle
  imports Main "HOL-Library.Sublist"
begin

section \<open>Authentication: credentials.ts\<close>

subsection \<open>Data\<close>

text \<open>
  \<^verbatim>\<open>AuthProvider\<close> (common/authentication.ts) is an enum with the two members that
  credentials.ts names: \<^verbatim>\<open>AuthProvider.github\<close> and \<^verbatim>\<open>AuthProvider.githubEnterprise\<close>.
\<close>

datatype AuthProvider = github | githubEnterprise

text \<open>
  Modelled from the spec: \<^verbatim>\<open>isEnterprise\<close> is imported from github/utils.ts, which is
  not part of the sources at hand. The specification speaks of the dot-com provider and
  the enterprise provider; the predicate singles out the latter. The store itself agrees:
  where \<^verbatim>\<open>getHub\<close> tests \<^verbatim>\<open>!isEnterprise(authProviderId)\<close> to choose \<^verbatim>\<open>_githubAPI\<close>,
  \<^verbatim>\<open>isCurrentUser\<close> tests \<^verbatim>\<open>authProviderId === AuthProvider.github\<close>.
\<close>

definition isEnterprise :: "AuthProvider \<Rightarrow> bool" where
  "isEnterprise authProviderId = (authProviderId = githubEnterprise)"

text \<open>A thrown value; the code only ever inspects its \<^verbatim>\<open>message\<close>, here \<open>error_message\<close>.\<close>

datatype error = Error (error_message: string)

text \<open>The part of \<^verbatim>\<open>vscode.Uri\<close> that \<^verbatim>\<open>createHub\<close> reads.\<close>

record Uri =
  scheme :: string
  authority :: string

text \<open>The part of \<^verbatim>\<open>vscode.AuthenticationSession\<close> that the store reads.\<close>

record AuthenticationSession =
  session_id :: string
  accessToken :: string

text \<open>
  \<^verbatim>\<open>forceNewSession\<close> is \<^verbatim>\<open>boolean | { detail: string }\<close>; every option may be absent
  (\<^verbatim>\<open>undefined\<close>), which is \<open>None\<close>.
\<close>

datatype ForceNewSession = FNBool bool | FNDetail string

record AuthenticationGetSessionOptions =
  createIfNone :: "bool option"
  forceNewSession :: "ForceNewSession option"
  silent :: "bool option"

text \<open>JavaScript truthiness of the \<^verbatim>\<open>forceNewSession\<close> option: an object is truthy.\<close>

fun truthy_force :: "ForceNewSession option \<Rightarrow> bool" where
  "truthy_force None = False"
| "truthy_force (Some (FNBool b)) = b"
| "truthy_force (Some (FNDetail d)) = True"


text \<open>
  The hub (\<^verbatim>\<open>interface GitHub\<close>): the REST client and the GraphQL client, each
  represented by the configuration \<^verbatim>\<open>createHub\<close> constructs it with.
\<close>

record Octokit =
  userAgent :: string
  previews :: "string list"
  auth :: string
  baseUrl :: string

record ApolloLink =
  uri :: string
  authorization :: string
  Accept :: string

record GitHub =
  octokit :: Octokit
  graphql :: ApolloLink

definition SCOPES_OLDEST :: "string list" where
  "SCOPES_OLDEST = [''read:user'', ''user:email'', ''repo'']"

definition SCOPES_OLD :: "string list" where
  "SCOPES_OLD = [''read:user'', ''user:email'', ''repo'', ''workflow'']"

definition SCOPES_WITH_ADDITIONAL :: "string list" where
  "SCOPES_WITH_ADDITIONAL =
     [''read:user'', ''user:email'', ''repo'', ''workflow'', ''project'', ''read:org'']"



text \<open>One request to \<^verbatim>\<open>vscode.authentication.getSession\<close>, with its three arguments.\<close>

record SessionRequest =
  req_provider :: AuthProvider
  req_scopes :: "string list"
  req_options :: AuthenticationGetSessionOptions

text \<open>What the store does to the outside, in the order it does it.\<close>

datatype StoreEvent =
    DidInitializeFired
  | TelemetryEvent string
  | ErrorMessageShown string

text \<open>
  The members of \<^verbatim>\<open>class CredentialStore\<close> (the leading underscore of a private field is
  written \<open>this_\<close>), followed by the state of the host that the store reads and
  writes: the extension's \<^verbatim>\<open>globalState\<close>, the requests made so far to
  \<^verbatim>\<open>vscode.authentication.getSession\<close>, and the events fired so far.
\<close>

record CredentialStore =
  this_githubAPI :: "GitHub option"
  this_sessionId :: "string option"
  this_githubEnterpriseAPI :: "GitHub option"
  this_enterpriseSessionId :: "string option"
  this_isInitialized :: bool
  this_scopes :: "string list"
  this_scopesEnterprise :: "string list"
  this_isSamling :: bool
  globalState :: "string \<rightharpoonup> string list"
  requests :: "SessionRequest list"
  events :: "StoreEvent list"

text \<open>
  The host, as far as the store depends on it. The functions \<^verbatim>\<open>hasEnterpriseUri\<close> and
  \<^verbatim>\<open>getEnterpriseUri\<close> live in github/utils.ts and read the user's settings; they are
  parameters here. \<^verbatim>\<open>vscode.authentication.getSession\<close> answers a request with a
  session, with \<^verbatim>\<open>undefined\<close>, or by throwing; its answer may depend on all earlier
  requests (a login creates a session that a later silent request finds), so it is a
  function of the history. \<open>hubFailure\<close> is the error, if any, that the construction of
  the two clients inside \<^verbatim>\<open>createHub\<close> raises.
\<close>

record Host =
  hasEnterpriseUri :: bool
  getEnterpriseUri :: "Uri option"
  authentication_getSession :: "SessionRequest list \<Rightarrow> SessionRequest \<Rightarrow> error + AuthenticationSession option"
  hubFailure :: "string \<Rightarrow> AuthProvider \<Rightarrow> error option"

subsection \<open>isAuthenticated, isAnyAuthenticated, getHub\<close>

definition isAuthenticated :: "CredentialStore \<Rightarrow> AuthProvider \<Rightarrow> bool" where
  "isAuthenticated this authProviderId =
     (if \<not> isEnterprise authProviderId then this_githubAPI this \<noteq> None
      else this_githubEnterpriseAPI this \<noteq> None)"

definition isAnyAuthenticated :: "CredentialStore \<Rightarrow> bool" where
  "isAnyAuthenticated this =
     (isAuthenticated this github \<or> isAuthenticated this githubEnterprise)"

definition getHub :: "CredentialStore \<Rightarrow> AuthProvider \<Rightarrow> GitHub option" where
  "getHub this authProviderId =
     (if \<not> isEnterprise authProviderId then this_githubAPI this
      else this_githubEnterpriseAPI this)"

subsection \<open>createHub and link\<close>

text \<open>\<^verbatim>\<open>String.prototype.endsWith\<close>.\<close>

definition endsWith :: "string \<Rightarrow> string \<Rightarrow> bool" where
  "endsWith s searchString =
     (length searchString \<le> length s \<and>
      drop (length s - length searchString) s = searchString)"

definition link :: "string \<Rightarrow> string \<Rightarrow> ApolloLink" where
  "link url token =
     \<lparr> uri = url @ ''/graphql'',
       authorization = (if token \<noteq> [] then ''Bearer '' @ token else []),
       Accept = ''application/vnd.github.merge-info-preview'' \<rparr>"

text \<open>
  \<^verbatim>\<open>createHub\<close>. \<open>isGhe\<close> is \<^verbatim>\<open>enterpriseServerUri?.authority.endsWith('ghe.com')\<close>,
  which is \<^verbatim>\<open>undefined\<close> (falsy) without a URI. The custom \<^verbatim>\<open>fetch\<close> of the web UI and
  the rate logger do not reach the URLs and are left out.
\<close>

definition createHub :: "Host \<Rightarrow> string \<Rightarrow> AuthProvider \<Rightarrow> error + GitHub" where
  "createHub host token authProviderId =
     (let enterpriseServerUri =
            (if isEnterprise authProviderId then getEnterpriseUri host else None);
          isGhe = (case enterpriseServerUri of
                     None \<Rightarrow> False
                   | Some u \<Rightarrow> endsWith (authority u) ''ghe.com'');
          baseUrl =
            (case enterpriseServerUri of
               None \<Rightarrow> ''https://api.github.com''
             | Some u \<Rightarrow>
                 if isGhe then scheme u @ ''://api.'' @ authority u
                 else scheme u @ ''://'' @ authority u @ ''/api/v3'');
          graphQLBaseUrl =
            (case enterpriseServerUri of
               None \<Rightarrow> baseUrl
             | Some u \<Rightarrow>
                 if \<not> isGhe then scheme u @ ''://'' @ authority u @ ''/api''
                 else baseUrl)
      in case hubFailure host token authProviderId of
           Some e \<Rightarrow> Inl e
         | None \<Rightarrow>
             Inr \<lparr> octokit =
                     \<lparr> userAgent = ''GitHub VSCode Pull Requests'',
                       previews = [''shadow-cat-preview'', ''merge-info-preview''],
                       auth = (if token \<noteq> [] then token else []),
                       baseUrl = baseUrl \<rparr>,
                   graphql = link graphQLBaseUrl (if token \<noteq> [] then token else []) \<rparr>)"


subsection \<open>getSession and findExistingScopes\<close>

text \<open>
  A call of \<^verbatim>\<open>vscode.authentication.getSession\<close>: the host answers from the history of
  requests, and the request is appended to that history.
\<close>

definition vscode_getSession ::
  "Host \<Rightarrow> AuthProvider \<Rightarrow> string list \<Rightarrow> AuthenticationGetSessionOptions \<Rightarrow> CredentialStore
     \<Rightarrow> (error + AuthenticationSession option) \<times> CredentialStore" where
  "vscode_getSession host authProviderId scopes opts this =
     (let r = \<lparr> req_provider = authProviderId, req_scopes = scopes, req_options = opts \<rparr>
      in (authentication_getSession host (requests this) r,
          this\<lparr> requests := requests this @ [r] \<rparr>))"

text \<open>The options object \<^verbatim>\<open>{ silent: true }\<close>.\<close>

definition silentOptions :: AuthenticationGetSessionOptions where
  "silentOptions = \<lparr> createIfNone = None, forceNewSession = None, silent = Some True \<rparr>"

text \<open>
  The \<^verbatim>\<open>for\<close> loop of \<^verbatim>\<open>findExistingScopes\<close> over the scope sets still to be tried.
  Falling out of the loop returns \<^verbatim>\<open>undefined\<close>; a throwing host call leaves the loop
  with the error.
\<close>

fun findExistingScopes_loop ::
  "Host \<Rightarrow> AuthProvider \<Rightarrow> string list list \<Rightarrow> CredentialStore
     \<Rightarrow> (error + (AuthenticationSession \<times> string list) option) \<times> CredentialStore" where
  "findExistingScopes_loop host authProviderId [] this = (Inr None, this)"
| "findExistingScopes_loop host authProviderId (scopes # rest) this =
     (case vscode_getSession host authProviderId scopes silentOptions this of
        (Inl e, this') \<Rightarrow> (Inl e, this')
      | (Inr (Some session), this') \<Rightarrow> (Inr (Some (session, scopes)), this')
      | (Inr None, this') \<Rightarrow> findExistingScopes_loop host authProviderId rest this')"

definition scopesInPreferenceOrder :: "string list list" where
  "scopesInPreferenceOrder = [SCOPES_WITH_ADDITIONAL, SCOPES_OLD, SCOPES_OLDEST]"

definition findExistingScopes ::
  "Host \<Rightarrow> AuthProvider \<Rightarrow> CredentialStore
     \<Rightarrow> (error + (AuthenticationSession \<times> string list) option) \<times> CredentialStore" where
  "findExistingScopes host authProviderId this =
     findExistingScopes_loop host authProviderId scopesInPreferenceOrder this"

text \<open>The object \<^verbatim>\<open>{ session, isNew, scopes }\<close> that \<^verbatim>\<open>getSession\<close> resolves to.\<close>

record SessionResult =
  res_session :: "AuthenticationSession option"
  res_isNew :: bool
  res_scopes :: "string list"

definition getSession ::
  "Host \<Rightarrow> AuthProvider \<Rightarrow> AuthenticationGetSessionOptions \<Rightarrow> string list \<Rightarrow> bool
     \<Rightarrow> CredentialStore \<Rightarrow> (error + SessionResult) \<times> CredentialStore" where
  "getSession host authProviderId getAuthSessionOptions scopes requireScopes this =
     (case (if truthy_force (forceNewSession getAuthSessionOptions) \<or> requireScopes
            then (Inr None, this)
            else findExistingScopes host authProviderId this) of
        (Inl e, this1) \<Rightarrow> (Inl e, this1)
      | (Inr (Some (session, found)), this1) \<Rightarrow>
          (Inr \<lparr> res_session = Some session, res_isNew = False, res_scopes = found \<rparr>, this1)
      | (Inr None, this1) \<Rightarrow>
          (case vscode_getSession host authProviderId
                  (if requireScopes then scopes else SCOPES_OLD) getAuthSessionOptions this1 of
             (Inl e, this2) \<Rightarrow> (Inl e, this2)
           | (Inr session, this2) \<Rightarrow>
               (Inr \<lparr> res_session = session, res_isNew = (session \<noteq> None),
                      res_scopes = (if requireScopes then scopes else SCOPES_OLD) \<rparr>, this2)))"

subsection \<open>initialize\<close>






section \<open>Query schemas: mergeQuerySchemaWithShared\<close>

text \<open>
  JavaScript objects and arrays are references into a heap, and the claim about
  \<^verbatim>\<open>mergeQuerySchemaWithShared\<close> says what happens to its arguments, so the heap is
  explicit: a list of cells, an address being an index into it. A value of type
  \<^verbatim>\<open>any\<close> is \<^verbatim>\<open>undefined\<close>, a primitive, or a reference. An object maps its own keys to
  values; a key may be present with the value \<^verbatim>\<open>undefined\<close>.
\<close>

type_synonym addr = nat

datatype 'a jsval = JUndefined | JPrim 'a | JRef addr

datatype 'a cell = JObject "string \<rightharpoonup> 'a jsval" | JArray "'a jsval list"

type_synonym 'a heap = "'a cell list"

definition object_at :: "'a heap \<Rightarrow> addr \<Rightarrow> (string \<rightharpoonup> 'a jsval) option" where
  "object_at h a =
     (if a < length h then (case h ! a of JObject props \<Rightarrow> Some props | JArray xs \<Rightarrow> None)
      else None)"

definition array_at :: "'a heap \<Rightarrow> 'a jsval \<Rightarrow> 'a jsval list option" where
  "array_at h v =
     (case v of
        JRef a \<Rightarrow>
          (if a < length h then (case h ! a of JArray xs \<Rightarrow> Some xs | JObject props \<Rightarrow> None)
           else None)
      | JUndefined \<Rightarrow> None
      | JPrim p \<Rightarrow> None)"

text \<open>Reading a property: \<^verbatim>\<open>undefined\<close> when the key is absent.\<close>

definition get_property :: "(string \<rightharpoonup> 'a jsval) \<Rightarrow> string \<Rightarrow> 'a jsval" where
  "get_property props k = (case props k of None \<Rightarrow> JUndefined | Some v \<Rightarrow> v)"

text \<open>
  The argument of \<^verbatim>\<open>Array.prototype.concat\<close>: an array contributes its elements, any
  other value contributes itself as one element.
\<close>

definition concat_argument :: "'a heap \<Rightarrow> 'a jsval \<Rightarrow> 'a jsval list" where
  "concat_argument h v = (case array_at h v of Some ys \<Rightarrow> ys | None \<Rightarrow> [v])"

text \<open>
  \<^verbatim>\<open>mergeQuerySchemaWithShared\<close> on the addresses of the two schemas. The type
  \<^verbatim>\<open>Schema\<close> makes both arguments objects whose \<^verbatim>\<open>definitions\<close> is an array; where the
  heap has no array under \<^verbatim>\<open>schema.definitions\<close> the call of \<^verbatim>\<open>concat\<close> on it cannot be
  made and the model stops with a type error, as it does for an argument that is no
  object. \<^verbatim>\<open>concat\<close> allocates a new array, the object literal a new object: the two
  spreads copy the own properties of \<^verbatim>\<open>schema\<close>, then those of \<^verbatim>\<open>sharedSchema\<close> over
  them, and \<^verbatim>\<open>definitions\<close> is set last.
\<close>

definition mergeQuerySchemaWithShared ::
  "'a heap \<Rightarrow> addr \<Rightarrow> addr \<Rightarrow> error + ('a heap \<times> addr)" where
  "mergeQuerySchemaWithShared h sharedSchema schema =
     (case object_at h sharedSchema of
        None \<Rightarrow> Inl (Error ''TypeError'')
      | Some shared \<Rightarrow>
          (case object_at h schema of
             None \<Rightarrow> Inl (Error ''TypeError'')
           | Some own \<Rightarrow>
               (let sharedSchemaDefinitions = get_property shared ''definitions'';
                    schemaDefinitions = get_property own ''definitions''
                in case array_at h schemaDefinitions of
                     None \<Rightarrow> Inl (Error ''TypeError'')
                   | Some xs \<Rightarrow>
                       (let mergedDefinitions = xs @ concat_argument h sharedSchemaDefinitions;
                            h1 = h @ [JArray mergedDefinitions];
                            merged = (own ++ shared)(''definitions'' \<mapsto> JRef (length h));
                            h2 = h1 @ [JObject merged]
                        in Inr (h2, length h1)))))"

section \<open>The active pull request view: PullRequestViewProvider\<close>

subsection \<open>Data\<close>

text \<open>
  The types below come from files that are not among the sources at hand
  (github/interface.ts, github/views.ts, common/timelineEvent.ts, common/webview.ts);
  each is cut down to the members that the provider reads or writes. In
  \<^verbatim>\<open>ReviewEvent\<close> the optional member \<^verbatim>\<open>state\<close> is written \<open>event_state\<close>, to keep it
  apart from the member \<^verbatim>\<open>state\<close> of \<^verbatim>\<open>ReviewState\<close>.
\<close>

datatype GithubItemStateEnum = Open | Closed | Merged

datatype PullRequestMergeability = Mergeable | NotMergeable | Conflict | Unknown | Behind

record IAccount =
  login :: string

record ITeam =
  slug :: string

datatype Reviewer = Account IAccount | Team ITeam

record ReviewState =
  reviewer :: Reviewer
  state :: string

record ReviewEvent =
  user :: IAccount
  event_state :: "string option"
  body :: string

record 'a IRequestMessage =
  req :: string
  command :: string
  args :: 'a

record MergeArguments =
  title :: "string option"
  description :: "string option"
  mergeMethod :: string

record MergeResult =
  merged :: bool
  merge_message :: "string option"

type_synonym TimelineEvent = string

text \<open>The second argument of \<^verbatim>\<open>_replyMessage\<close>.\<close>

datatype Reply =
    ReplyEmpty
  | ReplyState GithubItemStateEnum
  | ReplySubmitReview "TimelineEvent list" ReviewEvent "ReviewState list"
  | ReplyUpdateBranch "TimelineEvent list" PullRequestMergeability

text \<open>The second argument of \<^verbatim>\<open>_throwError\<close>: a text, or the empty object.\<close>

datatype Thrown = ThrownText string | ThrownEmpty

datatype ReviewAction = approve | requestChanges | submitReview

text \<open>
  What the provider does to the outside, in the order it does it: dialogs (with the
  user's answer), commands, the calls on the folder repository manager and on the pull
  request model, and the messages to the webview. \<^verbatim>\<open>_replyMessage\<close> and \<^verbatim>\<open>_throwError\<close>
  belong to the base class in common/webview.ts; a call is recorded with the \<^verbatim>\<open>req\<close> of
  the message it answers.
\<close>

datatype Effect =
    ShowErrorMessage string bool
  | ShowInformationMessage string bool "string list" "string option"
  | ExecuteCommand string
  | ReplyMessage string Reply
  | ThrowError string Thrown
  | GetPreferredEmail
  | MergePullRequest "string option" "string option" string "string option"
  | TryMergeBaseIntoHead
  | GetMergeability "error + PullRequestMergeability"
  | SetTimeout nat
  | GetTimelineEvents
  | Refresh

record PullRequestViewProvider =
  existingReviewers :: "ReviewState list"
  effects :: "Effect list"

text \<open>
  The surroundings of the provider. \<^verbatim>\<open>vscode.l10n.t\<close> and \<^verbatim>\<open>formatError\<close> produce texts and
  are parameters, as is \<^verbatim>\<open>reviewerId\<close> (github/interface.ts). The user's answer to the
  merge dialog is the chosen item or \<^verbatim>\<open>undefined\<close>. The calls on the repository manager and
  on the pull request resolve or reject; the mergeability may change from one poll to
  the next, so it is a function of what has happened so far.
\<close>

record PullRequestHost =
  l10n_t :: "string \<Rightarrow> string list \<Rightarrow> string"
  formatError :: "error \<Rightarrow> string"
  reviewerId :: "Reviewer \<Rightarrow> string"
  getPreferredEmail :: "error + string option"
  answerMergeDialog :: "string option"
  mergePullRequestResult :: "error + MergeResult"
  workingTreeChanges :: "string list"
  indexChanges :: "string list"
  tryMergeBaseIntoHead :: "error + bool"
  getMergeability :: "Effect list \<Rightarrow> error + PullRequestMergeability"
  getTimelineEvents :: "error + TimelineEvent list"
  refreshFailure :: "error option"
  reviewAction :: "ReviewAction \<Rightarrow> string \<Rightarrow> error + ReviewEvent"

definition emit :: "Effect list \<Rightarrow> PullRequestViewProvider \<Rightarrow> PullRequestViewProvider" where
  "emit es this = this\<lparr> effects := effects this @ es \<rparr>"


subsection \<open>updateReviewers and the review messages\<close>

text \<open>\<^verbatim>\<open>Array.prototype.find\<close> returns the first element that satisfies the predicate; the
  caller then writes to that element, so the model looks for its index.\<close>

fun findIndex :: "('a \<Rightarrow> bool) \<Rightarrow> 'a list \<Rightarrow> nat option" where
  "findIndex P [] = None"
| "findIndex P (x # xs) = (if P x then Some 0 else map_option Suc (findIndex P xs))"

text \<open>
  \<^verbatim>\<open>updateReviewers\<close>. The guard \<^verbatim>\<open>review && review.state\<close> is JavaScript truthiness: the
  review is there, and its state is there and is not the empty string.
\<close>

definition updateReviewers ::
  "PullRequestHost \<Rightarrow> ReviewEvent option \<Rightarrow> PullRequestViewProvider \<Rightarrow> PullRequestViewProvider" where
  "updateReviewers host review this =
     (case review of
        None \<Rightarrow> this
      | Some r \<Rightarrow>
          (case event_state r of
             None \<Rightarrow> this
           | Some st \<Rightarrow>
               if st = [] then this
               else
                 (case findIndex (\<lambda>rv. login (user r) = reviewerId host (reviewer rv))
                         (existingReviewers this) of
                    Some i \<Rightarrow>
                      this\<lparr> existingReviewers :=
                              (existingReviewers this)
                                [i := (existingReviewers this ! i)\<lparr> state := st \<rparr>] \<rparr>
                  | None \<Rightarrow>
                      this\<lparr> existingReviewers :=
                              existingReviewers this @
                                [\<lparr> reviewer = Account (user r), state = st \<rparr>] \<rparr>)))"

text \<open>
  \<^verbatim>\<open>doReviewMessage\<close>: \<open>action\<close> is the promise-returning callback; \<open>Inl\<close> is its
  rejection, which the \<^verbatim>\<open>catch\<close> block handles.
\<close>

definition doReviewMessage ::
  "PullRequestHost \<Rightarrow> string IRequestMessage \<Rightarrow> (string \<Rightarrow> error + ReviewEvent)
     \<Rightarrow> PullRequestViewProvider \<Rightarrow> PullRequestViewProvider" where
  "doReviewMessage host message action this =
     (case action (args message) of
        Inr review \<Rightarrow>
          (let this1 = updateReviewers host (Some review) this
           in emit [ReplyMessage (req message)
                      (ReplySubmitReview [] review (existingReviewers this1))] this1)
      | Inl e \<Rightarrow>
          emit [ShowErrorMessage
                  (l10n_t host ''Submitting review failed. {0}'' [formatError host e]) False,
                ThrowError (req message) (ThrownText (formatError host e))] this)"

definition approvePullRequest :: "PullRequestHost \<Rightarrow> string \<Rightarrow> error + ReviewEvent" where
  "approvePullRequest host b = reviewAction host approve b"

definition requestChanges_action :: "PullRequestHost \<Rightarrow> string \<Rightarrow> error + ReviewEvent" where
  "requestChanges_action host b = reviewAction host requestChanges b"

definition submitReview_action :: "PullRequestHost \<Rightarrow> string \<Rightarrow> error + ReviewEvent" where
  "submitReview_action host b = reviewAction host submitReview b"

definition approvePullRequestMessage ::
  "PullRequestHost \<Rightarrow> string IRequestMessage \<Rightarrow> PullRequestViewProvider \<Rightarrow> PullRequestViewProvider" where
  "approvePullRequestMessage host message this =
     doReviewMessage host message (\<lambda>b. approvePullRequest host b) this"

definition requestChangesMessage ::
  "PullRequestHost \<Rightarrow> string IRequestMessage \<Rightarrow> PullRequestViewProvider \<Rightarrow> PullRequestViewProvider" where
  "requestChangesMessage host message this =
     doReviewMessage host message (\<lambda>b. requestChanges_action host b) this"

definition submitReviewMessage ::
  "PullRequestHost \<Rightarrow> string IRequestMessage \<Rightarrow> PullRequestViewProvider \<Rightarrow> PullRequestViewProvider" where
  "submitReviewMessage host message this =
     doReviewMessage host message (\<lambda>b. submitReview_action host b) this"

subsection \<open>mergePullRequest\<close>

text \<open>
  \<^verbatim>\<open>mergePullRequest\<close>. The handler returns once the dialog is answered; the
  \<^verbatim>\<open>then\<close> and \<^verbatim>\<open>catch\<close> callbacks run when the merge settles, and the model runs them
  in place. A rejected \<^verbatim>\<open>getPreferredEmail\<close> rejects the handler before the dialog.
\<close>

definition mergePullRequest ::
  "PullRequestHost \<Rightarrow> MergeArguments IRequestMessage \<Rightarrow> PullRequestViewProvider
     \<Rightarrow> (error + unit) \<times> PullRequestViewProvider" where
  "mergePullRequest host message this =
     (case getPreferredEmail host of
        Inl e \<Rightarrow> (Inl e, emit [GetPreferredEmail] this)
      | Inr email \<Rightarrow>
          (let yes = l10n_t host ''Yes'' [];
               confirmation = answerMergeDialog host;
               this1 = emit [GetPreferredEmail,
                             ShowInformationMessage
                               (l10n_t host ''Merge this pull request?'' []) True [yes]
                               confirmation] this
           in if confirmation \<noteq> Some yes
              then (Inr (), emit [ReplyMessage (req message) (ReplyState Open)] this1)
              else
                (let this2 = emit [MergePullRequest (title (args message))
                                     (description (args message))
                                     (mergeMethod (args message)) email] this1
                 in case mergePullRequestResult host of
                      Inr result \<Rightarrow>
                        (Inr (),
                         emit ([ExecuteCommand ''pr.refreshList''] @
                               (if \<not> merged result
                                then [ShowErrorMessage
                                        (l10n_t host ''Merging PR failed: {0}''
                                           [case merge_message result of
                                              None \<Rightarrow> [] | Some m \<Rightarrow> m]) False]
                                else []) @
                               [ReplyMessage (req message)
                                  (ReplyState (if merged result then Merged else Open))])
                           this2)
                    | Inl e \<Rightarrow>
                        (Inr (),
                         emit [ShowErrorMessage
                                 (l10n_t host ''Unable to merge pull request. {0}''
                                    [formatError host e]) False,
                               ThrowError (req message) ThrownEmpty] this2))))"

subsection \<open>updateBranch\<close>

text \<open>
  The \<^verbatim>\<open>do ... while\<close> loop of \<^verbatim>\<open>updateBranch\<close>, entered with \<open>attemptsRemaining\<close>: one
  poll, the decrement, the one-second wait, then the test. A rejected poll leaves the
  loop with the error.
\<close>

function pollMergeability ::
  "PullRequestHost \<Rightarrow> int \<Rightarrow> PullRequestViewProvider
     \<Rightarrow> (error + PullRequestMergeability) \<times> PullRequestViewProvider" where
  "pollMergeability host attemptsRemaining this =
     (case getMergeability host (effects this) of
        Inl e \<Rightarrow> (Inl e, emit [GetMergeability (Inl e)] this)
      | Inr mergability \<Rightarrow>
          (let remaining = attemptsRemaining - 1;
               this1 = emit [GetMergeability (Inr mergability), SetTimeout 1000] this
           in if remaining > 0 \<and> mergability = Unknown
              then pollMergeability host remaining this1
              else (Inr mergability, this1)))"
  by pat_completeness auto
termination
  by (relation "measure (\<lambda>(host, attemptsRemaining, this). nat attemptsRemaining)") auto

declare pollMergeability.simps [simp del]

definition changedFilesText :: string where
  "changedFilesText = ''The pull request branch cannot be updated when the there changed files in the working tree or index. Stash or commit all change and then try again.''"

definition updateBranch ::
  "PullRequestHost \<Rightarrow> string IRequestMessage \<Rightarrow> PullRequestViewProvider
     \<Rightarrow> (error + unit) \<times> PullRequestViewProvider" where
  "updateBranch host message this =
     (if length (workingTreeChanges host) > 0 \<or> length (indexChanges host) > 0
      then (Inr (),
            emit [ShowErrorMessage (l10n_t host changedFilesText []) True,
                  ReplyMessage (req message) ReplyEmpty] this)
      else
        (case tryMergeBaseIntoHead host of
           Inl e \<Rightarrow> (Inl e, emit [TryMergeBaseIntoHead] this)
         | Inr mergeSucceeded \<Rightarrow>
             (let this1 = emit ([TryMergeBaseIntoHead] @
                                (if \<not> mergeSucceeded
                                 then [ReplyMessage (req message) ReplyEmpty] else [])) this
              in case pollMergeability host 5 this1 of
                   (Inl e, this2) \<Rightarrow> (Inl e, this2)
                 | (Inr mergability, this2) \<Rightarrow>
                     (case getTimelineEvents host of
                        Inl e \<Rightarrow> (Inl e, emit [GetTimelineEvents] this2)
                      | Inr timeline \<Rightarrow>
                          (case refreshFailure host of
                             Some e \<Rightarrow> (Inl e, emit [GetTimelineEvents, Refresh] this2)
                           | None \<Rightarrow>
                               (Inr (),
                                emit [GetTimelineEvents, Refresh,
                                      ReplyMessage (req message)
                                        (ReplyUpdateBranch timeline mergability)] this2))))))"

text \<open>The polls recorded in a trace of effects, with what each returned.\<close>

fun polls :: "Effect list \<Rightarrow> (error + PullRequestMergeability) list" where
  "polls [] = []"
| "polls (GetMergeability r # es) = r # polls es"
| "polls (e # es) = polls es"


section \<open>Routing of webview messages\<close>

text \<open>
  What a message handler's promise resolves to is of type \<^verbatim>\<open>any\<close>; the handlers at hand
  resolve to \<^verbatim>\<open>undefined\<close>, to an object, or to the string \<^verbatim>\<open>MESSAGE_UNHANDLED\<close>.
\<close>

datatype jsany = js_undefined | js_string string | js_object

text \<open>
  The base class \<^verbatim>\<open>WebviewBase\<close> (common/webview.ts) is not among the sources at hand:
  its constant \<^verbatim>\<open>MESSAGE_UNHANDLED\<close> and its handler \<^verbatim>\<open>_onDidReceiveMessage\<close>, which gives
  the value its promise settles with, are parameters.
\<close>

record 'a WebviewBase =
  MESSAGE_UNHANDLED :: jsany
  base_onDidReceiveMessage :: "'a IRequestMessage \<Rightarrow> error + jsany"

subsection \<open>PullRequestViewProvider\<close>

text \<open>The statements that the cases of the \<^verbatim>\<open>switch\<close> run, one for each case.\<close>

datatype PullRequestHandler =
    pr_showErrorMessage
  | pr_close
  | pr_createComment
  | pr_mergePullRequest
  | pr_create
  | pr_deleteBranch
  | pr_setReadyForReview
  | pr_approvePullRequestMessage
  | pr_requestChangesMessage
  | pr_submitReviewMessage
  | pr_openPullRequestOnGitHub
  | pr_checkoutDefaultBranch
  | pr_updateBranch
  | pr_reRequestReview

text \<open>
  \<^verbatim>\<open>PullRequestViewProvider._onDidReceiveMessage\<close>: the handlers that the message is
  routed to, in order. The \<^verbatim>\<open>switch\<close> compares \<^verbatim>\<open>message.command\<close> with each case in
  turn, every case returns, and there is no \<^verbatim>\<open>default\<close>.
\<close>

definition PullRequestViewProvider_onDidReceiveMessage ::
  "'a WebviewBase \<Rightarrow> 'a IRequestMessage \<Rightarrow> error + PullRequestHandler list" where
  "PullRequestViewProvider_onDidReceiveMessage base message =
     (case base_onDidReceiveMessage base message of
        Inl e \<Rightarrow> Inl e
      | Inr result \<Rightarrow>
          if result \<noteq> MESSAGE_UNHANDLED base then Inr []
          else Inr
            (if command message = ''alert'' then [pr_showErrorMessage]
             else if command message = ''pr.close'' then [pr_close]
             else if command message = ''pr.comment'' then [pr_createComment]
             else if command message = ''pr.merge'' then [pr_mergePullRequest]
             else if command message = ''pr.open-create'' then [pr_create]
             else if command message = ''pr.deleteBranch'' then [pr_deleteBranch]
             else if command message = ''pr.readyForReview'' then [pr_setReadyForReview]
             else if command message = ''pr.approve'' then [pr_approvePullRequestMessage]
             else if command message = ''pr.request-changes'' then [pr_requestChangesMessage]
             else if command message = ''pr.submit'' then [pr_submitReviewMessage]
             else if command message = ''pr.openOnGitHub'' then [pr_openPullRequestOnGitHub]
             else if command message = ''pr.checkout-default-branch''
                  then [pr_checkoutDefaultBranch]
             else if command message = ''pr.update-branch'' then [pr_updateBranch]
             else if command message = ''pr.re-request-review'' then [pr_reRequestReview]
             else []))"

definition PullRequestViewProvider_commands :: "string list" where
  "PullRequestViewProvider_commands =
     [''alert'', ''pr.close'', ''pr.comment'', ''pr.merge'', ''pr.open-create'',
      ''pr.deleteBranch'', ''pr.readyForReview'', ''pr.approve'', ''pr.request-changes'',
      ''pr.submit'', ''pr.openOnGitHub'', ''pr.checkout-default-branch'',
      ''pr.update-branch'', ''pr.re-request-review'']"

subsection \<open>BaseCreatePullRequestViewProvider and CreatePullRequestViewProvider\<close>

datatype CreateHandler =
    cpr_initializeParamsPromise
  | cpr_cancel
  | cpr_create
  | cpr_addLabels
  | cpr_addReviewers
  | cpr_addAssignees
  | cpr_addMilestone
  | cpr_addProjects
  | cpr_removeLabel
  | cpr_changeRemoteAndBranch bool
  | cpr_generateTitleAndDescription
  | cpr_cancelGenerateTitleAndDescription
  | cpr_preReview
  | cpr_cancelPreReview

text \<open>What happened to a message: a handler was called, or an error message was shown.\<close>

datatype Routed = Called CreateHandler | ErrorMessage string

text \<open>
  The value a handler's promise settles with. Each handler is declared to return
  \<^verbatim>\<open>Promise<void>\<close>, except \<^verbatim>\<open>initializeParamsPromise\<close>, which resolves to the parameter
  object, and \<^verbatim>\<open>cancel\<close>, which resolves to what \<^verbatim>\<open>_replyMessage\<close> resolves to (nothing).
  \<open>rejects\<close> is the error, if any, that the handler's promise is rejected with.
\<close>

definition settle :: "(CreateHandler \<Rightarrow> error option) \<Rightarrow> CreateHandler \<Rightarrow> error + jsany" where
  "settle rejects handler =
     (case rejects handler of
        Some e \<Rightarrow> Inl e
      | None \<Rightarrow> Inr (if handler = cpr_initializeParamsPromise then js_object
                     else js_undefined))"

definition BaseCreatePullRequestViewProvider_onDidReceiveMessage ::
  "'a WebviewBase \<Rightarrow> (CreateHandler \<Rightarrow> error option) \<Rightarrow> 'a IRequestMessage
     \<Rightarrow> (error + jsany) \<times> Routed list" where
  "BaseCreatePullRequestViewProvider_onDidReceiveMessage base rejects message =
     (case base_onDidReceiveMessage base message of
        Inl e \<Rightarrow> (Inl e, [])
      | Inr result \<Rightarrow>
          if result \<noteq> MESSAGE_UNHANDLED base then (Inr js_undefined, [])
          else
            (let call = (\<lambda>handler. (settle rejects handler, [Called handler]))
             in if command message = ''pr.requestInitialize''
                  then call cpr_initializeParamsPromise
                else if command message = ''pr.cancelCreate'' then call cpr_cancel
                else if command message = ''pr.create'' then call cpr_create
                else if command message = ''pr.changeLabels'' then call cpr_addLabels
                else if command message = ''pr.changeReviewers'' then call cpr_addReviewers
                else if command message = ''pr.changeAssignees'' then call cpr_addAssignees
                else if command message = ''pr.changeMilestone'' then call cpr_addMilestone
                else if command message = ''pr.changeProjects'' then call cpr_addProjects
                else if command message = ''pr.removeLabel'' then call cpr_removeLabel
                else (Inr (MESSAGE_UNHANDLED base), [])))"

definition BaseCreatePullRequestViewProvider_commands :: "string list" where
  "BaseCreatePullRequestViewProvider_commands =
     [''pr.requestInitialize'', ''pr.cancelCreate'', ''pr.create'', ''pr.changeLabels'',
      ''pr.changeReviewers'', ''pr.changeAssignees'', ''pr.changeMilestone'',
      ''pr.changeProjects'', ''pr.removeLabel'']"

definition CreatePullRequestViewProvider_onDidReceiveMessage ::
  "'a WebviewBase \<Rightarrow> (CreateHandler \<Rightarrow> error option) \<Rightarrow> 'a IRequestMessage
     \<Rightarrow> (error + jsany) \<times> Routed list" where
  "CreatePullRequestViewProvider_onDidReceiveMessage base rejects message =
     (case BaseCreatePullRequestViewProvider_onDidReceiveMessage base rejects message of
        (Inl e, routed) \<Rightarrow> (Inl e, routed)
      | (Inr result, routed) \<Rightarrow>
          if result \<noteq> MESSAGE_UNHANDLED base then (Inr js_undefined, routed)
          else
            (let call = (\<lambda>handler. (settle rejects handler, routed @ [Called handler]))
             in if command message = ''pr.changeBaseRemoteAndBranch''
                  then call (cpr_changeRemoteAndBranch True)
                else if command message = ''pr.changeCompareRemoteAndBranch''
                  then call (cpr_changeRemoteAndBranch False)
                else if command message = ''pr.generateTitleAndDescription''
                  then call cpr_generateTitleAndDescription
                else if command message = ''pr.cancelGenerateTitleAndDescription''
                  then call cpr_cancelGenerateTitleAndDescription
                else if command message = ''pr.preReview'' then call cpr_preReview
                else if command message = ''pr.cancelPreReview'' then call cpr_cancelPreReview
                else (Inr js_undefined,
                      routed @ [ErrorMessage ''Unsupported webview message''])))"

definition CreatePullRequestViewProvider_commands :: "string list" where
  "CreatePullRequestViewProvider_commands =
     [''pr.changeBaseRemoteAndBranch'', ''pr.changeCompareRemoteAndBranch'',
      ''pr.generateTitleAndDescription'', ''pr.cancelGenerateTitleAndDescription'',
      ''pr.preReview'', ''pr.cancelPreReview'']"

text \<open>The handlers among the things a message was routed to.\<close>

fun called :: "Routed list \<Rightarrow> CreateHandler list" where
  "called [] = []"
| "called (Called handler # rs) = handler # called rs"
| "called (ErrorMessage text # rs) = called rs"

section \<open>Concrete inputs\<close>

text \<open>Inputs on which the theorems below are instantiated.\<close>

definition dotcomHub :: GitHub where
  "dotcomHub =
     \<lparr> octokit = \<lparr> userAgent = ''GitHub VSCode Pull Requests'',
                   previews = [''shadow-cat-preview'', ''merge-info-preview''],
                   auth = ''t0ken'', baseUrl = ''https://api.github.com'' \<rparr>,
       graphql = link ''https://api.github.com'' ''t0ken'' \<rparr>"

definition freshStore :: CredentialStore where
  "freshStore =
     \<lparr> this_githubAPI = None, this_sessionId = None,
       this_githubEnterpriseAPI = None, this_enterpriseSessionId = None,
       this_isInitialized = False,
       this_scopes = SCOPES_OLD, this_scopesEnterprise = SCOPES_OLD,
       this_isSamling = False,
       globalState = Map.empty, requests = [], events = [] \<rparr>"

definition signedInStore :: CredentialStore where
  "signedInStore = freshStore\<lparr> this_githubAPI := Some dotcomHub, this_sessionId := Some ''s1'' \<rparr>"

definition schemaHeap :: "nat heap" where
  "schemaHeap =
     [JArray [JPrim 1],
      JObject [''definitions'' \<mapsto> JRef 0, ''kind'' \<mapsto> JPrim 7],
      JArray [JPrim 2],
      JObject [''definitions'' \<mapsto> JRef 2, ''kind'' \<mapsto> JPrim 9, ''loc'' \<mapsto> JPrim 3]]"

text \<open>Three hosts: no enterprise server, one on ghe.com, one elsewhere.\<close>

definition dotcomHost :: Host where
  "dotcomHost =
     \<lparr> hasEnterpriseUri = False, getEnterpriseUri = None,
       authentication_getSession = (\<lambda>history request. Inr None),
       hubFailure = (\<lambda>token authProviderId. None) \<rparr>"

definition gheHost :: Host where
  "gheHost =
     dotcomHost\<lparr> hasEnterpriseUri := True,
                 getEnterpriseUri := Some \<lparr> scheme = ''https'', authority = ''octo.ghe.com'' \<rparr> \<rparr>"

definition serverHost :: Host where
  "serverHost =
     dotcomHost\<lparr> hasEnterpriseUri := True,
                 getEnterpriseUri := Some \<lparr> scheme = ''https'', authority = ''git.example.org'' \<rparr> \<rparr>"

text \<open>
  A host that has a session for the scopes \<open>SCOPES_OLD\<close> and for no other scope set,
  and the options \<^verbatim>\<open>{}\<close> and \<^verbatim>\<open>{ forceNewSession: true }\<close>.
\<close>

definition oldSession :: AuthenticationSession where
  "oldSession = \<lparr> session_id = ''s1'', accessToken = ''t0ken'' \<rparr>"

definition oldSessionHost :: Host where
  "oldSessionHost =
     dotcomHost\<lparr> authentication_getSession :=
       (\<lambda>history request.
          if req_scopes request = SCOPES_OLD then Inr (Some oldSession) else Inr None) \<rparr>"

definition noOptions :: AuthenticationGetSessionOptions where
  "noOptions = \<lparr> createIfNone = None, forceNewSession = None, silent = None \<rparr>"

definition forceOptions :: AuthenticationGetSessionOptions where
  "forceOptions = noOptions\<lparr> forceNewSession := Some (FNBool True) \<rparr>"





text \<open>
  A pull request with two reviewers, seen from a host on which the user confirms the merge
  dialog, the merge succeeds, the working tree is clean, and the mergeability is known
  at the third poll.
\<close>

definition alice :: IAccount where
  "alice = \<lparr> login = ''alice'' \<rparr>"

definition bob :: IAccount where
  "bob = \<lparr> login = ''bob'' \<rparr>"

definition carol :: IAccount where
  "carol = \<lparr> login = ''carol'' \<rparr>"

definition twoReviewers :: PullRequestViewProvider where
  "twoReviewers =
     \<lparr> existingReviewers =
         [\<lparr> reviewer = Account alice, state = ''REQUESTED'' \<rparr>,
          \<lparr> reviewer = Account bob, state = ''COMMENTED'' \<rparr>],
       effects = [] \<rparr>"

definition approval :: "IAccount \<Rightarrow> ReviewEvent" where
  "approval who = \<lparr> user = who, event_state = Some ''APPROVED'', body = ''fine'' \<rparr>"

definition isPoll :: "Effect \<Rightarrow> bool" where
  "isPoll e = (case e of GetMergeability r \<Rightarrow> True | _ \<Rightarrow> False)"

definition friendlyHost :: PullRequestHost where
  "friendlyHost =
     \<lparr> l10n_t = (\<lambda>text arguments. text),
       formatError = error_message,
       reviewerId = (\<lambda>r. case r of Account a \<Rightarrow> login a | Team t \<Rightarrow> slug t),
       getPreferredEmail = Inr (Some ''alice@example.org''),
       answerMergeDialog = Some ''Yes'',
       mergePullRequestResult = Inr \<lparr> merged = True, merge_message = None \<rparr>,
       workingTreeChanges = [],
       indexChanges = [],
       tryMergeBaseIntoHead = Inr True,
       getMergeability =
         (\<lambda>history. if length (filter isPoll history) < 2 then Inr Unknown else Inr Mergeable),
       getTimelineEvents = Inr [],
       refreshFailure = None,
       reviewAction = (\<lambda>action b. Inr (approval carol)) \<rparr>"

text \<open>A host on which submitting a review is rejected, and a request to approve.\<close>

definition rejectingHost :: PullRequestHost where
  "rejectingHost =
     friendlyHost\<lparr> reviewAction := (\<lambda>action b. Inl (Error ''Validation Failed'')) \<rparr>"

definition approveRequest :: "string IRequestMessage" where
  "approveRequest = \<lparr> req = ''7'', command = ''pr.approve'', args = ''fine'' \<rparr>"

text \<open>
  A request to merge, a host on which the user dismisses the dialog, and one on which the
  merge is attempted and reports that it has not merged.
\<close>

definition mergeRequest :: "MergeArguments IRequestMessage" where
  "mergeRequest =
     \<lparr> req = ''9'', command = ''pr.merge'',
       args = \<lparr> title = Some ''Add tests'', description = None, mergeMethod = ''squash'' \<rparr> \<rparr>"

definition dismissingHost :: PullRequestHost where
  "dismissingHost = friendlyHost\<lparr> answerMergeDialog := None \<rparr>"

definition conflictHost :: PullRequestHost where
  "conflictHost =
     friendlyHost\<lparr> mergePullRequestResult :=
       Inr \<lparr> merged = False, merge_message = Some ''conflict'' \<rparr> \<rparr>"

text \<open>A request to update the branch, and hosts with a changed file and with a mergeability
  that stays unknown.\<close>

definition updateRequest :: "string IRequestMessage" where
  "updateRequest = \<lparr> req = ''11'', command = ''pr.update-branch'', args = [] \<rparr>"

definition dirtyHost :: PullRequestHost where
  "dirtyHost = friendlyHost\<lparr> workingTreeChanges := [''README.md''] \<rparr>"

definition undecidedHost :: PullRequestHost where
  "undecidedHost = friendlyHost\<lparr> getMergeability := (\<lambda>history. Inr Unknown) \<rparr>"

text \<open>
  A base class that handles \<^verbatim>\<open>ready\<close> and nothing else, and four messages: one for the
  base class, one for each of the two classes of the create view, and one for nobody.
\<close>

definition readyBase :: "string WebviewBase" where
  "readyBase =
     \<lparr> MESSAGE_UNHANDLED = js_string ''message not handled'',
       base_onDidReceiveMessage =
         (\<lambda>message. if command message = ''ready'' then Inr js_undefined
                     else Inr (js_string ''message not handled'')) \<rparr>"

definition messageWith :: "string \<Rightarrow> string IRequestMessage" where
  "messageWith c = \<lparr> req = ''1'', command = c, args = [] \<rparr>"

definition neverRejects :: "CreateHandler \<Rightarrow> error option" where
  "neverRejects handler = None"

section \<open>Theorems\<close>

subsection \<open>Signed-in state\<close>

text \<open>
  Claim C7. In every state of the credential store, \<^verbatim>\<open>isAuthenticated\<close> of a provider
  is true exactly when a hub is stored for that provider: \<^verbatim>\<open>_githubAPI\<close> for the dot-com
  provider, \<^verbatim>\<open>_githubEnterpriseAPI\<close> for the enterprise provider (which is what
  \<^verbatim>\<open>getHub\<close> returns). \<^verbatim>\<open>isAnyAuthenticated\<close> is true exactly when \<^verbatim>\<open>isAuthenticated\<close>
  holds for at least one of the two providers.
\<close>

theorem isAuthenticated_iff_hub_stored:
  "isAuthenticated this github = (this_githubAPI this \<noteq> None) \<and>
   isAuthenticated this githubEnterprise = (this_githubEnterpriseAPI this \<noteq> None) \<and>
   isAuthenticated this authProviderId = (getHub this authProviderId \<noteq> None) \<and>
   isAnyAuthenticated this = (\<exists>p. isAuthenticated this p)"
proof -
  have "(\<exists>p. isAuthenticated this p) =
        (isAuthenticated this github \<or> isAuthenticated this githubEnterprise)"
  proof
    assume "\<exists>p. isAuthenticated this p"
    then obtain p where "isAuthenticated this p" ..
    then show "isAuthenticated this github \<or> isAuthenticated this githubEnterprise"
      by (cases p) simp_all
  next
    assume "isAuthenticated this github \<or> isAuthenticated this githubEnterprise"
    then show "\<exists>p. isAuthenticated this p" by blast
  qed
  then show ?thesis
    by (simp add: isAuthenticated_def isAnyAuthenticated_def getHub_def isEnterprise_def)
qed

text \<open>A store that holds a dot-com hub only, and a store that holds none.\<close>

theorem isAuthenticated_iff_hub_stored_witness:
  "isAuthenticated signedInStore github \<and>
   \<not> isAuthenticated signedInStore githubEnterprise \<and>
   getHub signedInStore github = Some dotcomHub \<and>
   isAnyAuthenticated signedInStore \<and>
   \<not> isAnyAuthenticated freshStore"
  using isAuthenticated_iff_hub_stored [of signedInStore github]
    isAuthenticated_iff_hub_stored [of freshStore githubEnterprise]
  by (simp add: signedInStore_def freshStore_def getHub_def isEnterprise_def isAnyAuthenticated_def)


subsection \<open>The URLs of a hub\<close>

text \<open>\<open>endsWith\<close> is the suffix relation of the list library.\<close>

lemma endsWith_iff_suffix: "endsWith s searchString = suffix searchString s"
proof
  assume "endsWith s searchString"
  then have "s = take (length s - length searchString) s @ searchString"
    by (metis append_take_drop_id endsWith_def)
  then show "suffix searchString s"
    by (metis suffixI)
next
  assume "suffix searchString s"
  then obtain zs where "s = zs @ searchString"
    by (auto simp: suffix_def)
  then show "endsWith s searchString"
    by (simp add: endsWith_def)
qed

text \<open>
  Claim C5. Where \<^verbatim>\<open>createHub\<close> returns a hub, the base URL of its REST client is
  \<^verbatim>\<open>https://api.github.com\<close> for the dot-com provider; for the enterprise provider with an
  enterprise URI it is \<^verbatim>\<open><scheme>://api.<authority>\<close> when the authority ends with
  \<^verbatim>\<open>ghe.com\<close> and \<^verbatim>\<open><scheme>://<authority>/api/v3\<close> otherwise. The GraphQL endpoint is the
  base URL followed by \<^verbatim>\<open>/graphql\<close>, except for an enterprise URI not on \<^verbatim>\<open>ghe.com\<close>, where
  it is \<^verbatim>\<open><scheme>://<authority>/api\<close> followed by \<^verbatim>\<open>/graphql\<close>.
\<close>

theorem createHub_urls:
  assumes "createHub host token authProviderId = Inr hub"
  shows "(\<not> isEnterprise authProviderId \<longrightarrow>
            baseUrl (octokit hub) = ''https://api.github.com'' \<and>
            uri (graphql hub) = baseUrl (octokit hub) @ ''/graphql'') \<and>
         (\<forall>u. isEnterprise authProviderId \<and> getEnterpriseUri host = Some u \<and>
               suffix ''ghe.com'' (authority u) \<longrightarrow>
            baseUrl (octokit hub) = scheme u @ ''://api.'' @ authority u \<and>
            uri (graphql hub) = baseUrl (octokit hub) @ ''/graphql'') \<and>
         (\<forall>u. isEnterprise authProviderId \<and> getEnterpriseUri host = Some u \<and>
               \<not> suffix ''ghe.com'' (authority u) \<longrightarrow>
            baseUrl (octokit hub) = scheme u @ ''://'' @ authority u @ ''/api/v3'' \<and>
            uri (graphql hub) = (scheme u @ ''://'' @ authority u @ ''/api'') @ ''/graphql'')"
  using assms
  by (auto simp: createHub_def link_def Let_def endsWith_iff_suffix split: option.splits)

text \<open>The three cases, each on a host of its own.\<close>

theorem createHub_urls_witness:
  "(\<exists>hub. createHub dotcomHost ''t0ken'' github = Inr hub \<and>
          baseUrl (octokit hub) = ''https://api.github.com'' \<and>
          uri (graphql hub) = ''https://api.github.com/graphql'') \<and>
   (\<exists>hub. createHub gheHost ''t0ken'' githubEnterprise = Inr hub \<and>
          baseUrl (octokit hub) = ''https://api.octo.ghe.com'' \<and>
          uri (graphql hub) = ''https://api.octo.ghe.com/graphql'') \<and>
   (\<exists>hub. createHub serverHost ''t0ken'' githubEnterprise = Inr hub \<and>
          baseUrl (octokit hub) = ''https://git.example.org/api/v3'' \<and>
          uri (graphql hub) = ''https://git.example.org/api/graphql'')"
proof -
  obtain h1 where h1: "createHub dotcomHost ''t0ken'' github = Inr h1"
    by (simp add: createHub_def dotcomHost_def isEnterprise_def Let_def)
  obtain h2 where h2: "createHub gheHost ''t0ken'' githubEnterprise = Inr h2"
    by (simp add: createHub_def gheHost_def dotcomHost_def isEnterprise_def Let_def)
  obtain h3 where h3: "createHub serverHost ''t0ken'' githubEnterprise = Inr h3"
    by (simp add: createHub_def serverHost_def dotcomHost_def isEnterprise_def Let_def)
  have g: "suffix ''ghe.com'' ''octo.ghe.com''"
    by (simp add: endsWith_iff_suffix [symmetric] endsWith_def)
  have s: "\<not> suffix ''ghe.com'' ''git.example.org''"
    by (simp add: endsWith_iff_suffix [symmetric] endsWith_def)
  from createHub_urls [OF h1] have "baseUrl (octokit h1) = ''https://api.github.com'' \<and>
      uri (graphql h1) = ''https://api.github.com/graphql''"
    by (simp add: isEnterprise_def)
  moreover
  from createHub_urls [OF h2] g have "baseUrl (octokit h2) = ''https://api.octo.ghe.com'' \<and>
      uri (graphql h2) = ''https://api.octo.ghe.com/graphql''"
    by (simp add: isEnterprise_def gheHost_def)
  moreover
  from createHub_urls [OF h3] s have "baseUrl (octokit h3) = ''https://git.example.org/api/v3'' \<and>
      uri (graphql h3) = ''https://git.example.org/api/graphql''"
    by (simp add: isEnterprise_def serverHost_def)
  ultimately show ?thesis
    using h1 h2 h3 by blast
qed

subsection \<open>Looking for a session\<close>

text \<open>
  Claim C8. With \<^verbatim>\<open>forceNewSession\<close> or \<^verbatim>\<open>requireScopes\<close> set, \<^verbatim>\<open>getSession\<close> makes one
  request to the host, with the caller's options, for the requested scopes when
  \<^verbatim>\<open>requireScopes\<close> is set and for \<open>SCOPES_OLD\<close> otherwise, and reports those scopes,
  with \<^verbatim>\<open>isNew\<close> set when a session came back. With neither set it first asks silently
  for \<open>SCOPES_WITH_ADDITIONAL\<close>, then for \<open>SCOPES_OLD\<close>, then for \<open>SCOPES_OLDEST\<close>,
  each only when the one before found nothing; the first session found is returned with
  its scope set and \<^verbatim>\<open>isNew = false\<close>, and nothing more is requested. When all three
  find nothing, the fourth request is the fresh one, for \<open>SCOPES_OLD\<close>.
\<close>

theorem getSession_preference_order:
  fixes host authProviderId opts scopes requireScopes this
  defines "probe \<equiv> (\<lambda>wanted. \<lparr> req_provider = authProviderId, req_scopes = wanted,
                                 req_options = silentOptions \<rparr>)"
      and "fresh \<equiv> \<lparr> req_provider = authProviderId,
                      req_scopes = (if requireScopes then scopes else SCOPES_OLD),
                      req_options = opts \<rparr>"
      and "outcome \<equiv> getSession host authProviderId opts scopes requireScopes this"
  defines "p1 \<equiv> probe SCOPES_WITH_ADDITIONAL"
      and "p2 \<equiv> probe SCOPES_OLD"
      and "p3 \<equiv> probe SCOPES_OLDEST"
  defines "a1 \<equiv> authentication_getSession host (requests this) p1"
      and "a2 \<equiv> authentication_getSession host (requests this @ [p1]) p2"
      and "a3 \<equiv> authentication_getSession host (requests this @ [p1, p2]) p3"
  shows "(truthy_force (forceNewSession opts) \<or> requireScopes \<longrightarrow>
            requests (snd outcome) = requests this @ [fresh] \<and>
            (\<forall>r. fst outcome = Inr r \<longrightarrow>
                   res_scopes r = (if requireScopes then scopes else SCOPES_OLD) \<and>
                   res_isNew r = (res_session r \<noteq> None))) \<and>
         (\<not> truthy_force (forceNewSession opts) \<and> \<not> requireScopes \<longrightarrow>
            (\<forall>s. a1 = Inr (Some s) \<longrightarrow>
                   outcome =
                     (Inr \<lparr> res_session = Some s, res_isNew = False,
                            res_scopes = SCOPES_WITH_ADDITIONAL \<rparr>,
                      this\<lparr> requests := requests this @ [p1] \<rparr>)) \<and>
            (\<forall>s. a1 = Inr None \<and> a2 = Inr (Some s) \<longrightarrow>
                   outcome =
                     (Inr \<lparr> res_session = Some s, res_isNew = False,
                            res_scopes = SCOPES_OLD \<rparr>,
                      this\<lparr> requests := requests this @ [p1, p2] \<rparr>)) \<and>
            (\<forall>s. a1 = Inr None \<and> a2 = Inr None \<and> a3 = Inr (Some s) \<longrightarrow>
                   outcome =
                     (Inr \<lparr> res_session = Some s, res_isNew = False,
                            res_scopes = SCOPES_OLDEST \<rparr>,
                      this\<lparr> requests := requests this @ [p1, p2, p3] \<rparr>)) \<and>
            (a1 = Inr None \<and> a2 = Inr None \<and> a3 = Inr None \<longrightarrow>
               requests (snd outcome) = requests this @ [p1, p2, p3, fresh] \<and>
               (\<forall>r. fst outcome = Inr r \<longrightarrow>
                      res_scopes r = SCOPES_OLD \<and>
                      res_isNew r = (res_session r \<noteq> None))))"
proof -
  have forced: "requests (snd outcome) = requests this @ [fresh] \<and>
            (\<forall>r. fst outcome = Inr r \<longrightarrow>
                   res_scopes r = (if requireScopes then scopes else SCOPES_OLD) \<and>
                   res_isNew r = (res_session r \<noteq> None))"
    if "truthy_force (forceNewSession opts) \<or> requireScopes"
    using that
    by (auto simp: outcome_def fresh_def getSession_def vscode_getSession_def Let_def
             split: sum.splits)
  have first: "outcome =
                 (Inr \<lparr> res_session = Some s, res_isNew = False,
                        res_scopes = SCOPES_WITH_ADDITIONAL \<rparr>,
                  this\<lparr> requests := requests this @ [p1] \<rparr>)"
    if "\<not> truthy_force (forceNewSession opts)" "\<not> requireScopes" "a1 = Inr (Some s)" for s
    using that
    by (simp add: outcome_def a1_def p1_def probe_def getSession_def findExistingScopes_def
          scopesInPreferenceOrder_def vscode_getSession_def Let_def)
  have second: "outcome =
                  (Inr \<lparr> res_session = Some s, res_isNew = False, res_scopes = SCOPES_OLD \<rparr>,
                   this\<lparr> requests := requests this @ [p1, p2] \<rparr>)"
    if "\<not> truthy_force (forceNewSession opts)" "\<not> requireScopes"
       "a1 = Inr None" "a2 = Inr (Some s)" for s
    using that
    by (simp add: outcome_def a1_def a2_def p1_def p2_def probe_def getSession_def
          findExistingScopes_def scopesInPreferenceOrder_def vscode_getSession_def Let_def)
  have third: "outcome =
                 (Inr \<lparr> res_session = Some s, res_isNew = False, res_scopes = SCOPES_OLDEST \<rparr>,
                  this\<lparr> requests := requests this @ [p1, p2, p3] \<rparr>)"
    if "\<not> truthy_force (forceNewSession opts)" "\<not> requireScopes"
       "a1 = Inr None" "a2 = Inr None" "a3 = Inr (Some s)" for s
    using that
    by (simp add: outcome_def a1_def a2_def a3_def p1_def p2_def p3_def probe_def
          getSession_def findExistingScopes_def scopesInPreferenceOrder_def
          vscode_getSession_def Let_def)
  have none: "requests (snd outcome) = requests this @ [p1, p2, p3, fresh] \<and>
               (\<forall>r. fst outcome = Inr r \<longrightarrow>
                      res_scopes r = SCOPES_OLD \<and> res_isNew r = (res_session r \<noteq> None))"
    if "\<not> truthy_force (forceNewSession opts)" "\<not> requireScopes"
       "a1 = Inr None" "a2 = Inr None" "a3 = Inr None"
    using that
    by (auto simp: outcome_def a1_def a2_def a3_def p1_def p2_def p3_def probe_def fresh_def
          getSession_def findExistingScopes_def scopesInPreferenceOrder_def
          vscode_getSession_def Let_def split: sum.splits)
  from forced first second third none show ?thesis
    by blast
qed


text \<open>
  A host with a session for \<open>SCOPES_OLD\<close> only: without options the second silent
  request finds it; with \<^verbatim>\<open>forceNewSession\<close> the one request made is the caller's.
\<close>

theorem getSession_preference_order_witness:
  "getSession oldSessionHost github noOptions [''repo''] False freshStore =
     (Inr \<lparr> res_session = Some oldSession, res_isNew = False, res_scopes = SCOPES_OLD \<rparr>,
      freshStore\<lparr> requests :=
        [\<lparr> req_provider = github, req_scopes = SCOPES_WITH_ADDITIONAL,
            req_options = silentOptions \<rparr>,
         \<lparr> req_provider = github, req_scopes = SCOPES_OLD,
            req_options = silentOptions \<rparr>] \<rparr>) \<and>
   requests (snd (getSession oldSessionHost github forceOptions [''repo''] False freshStore)) =
     [\<lparr> req_provider = github, req_scopes = SCOPES_OLD, req_options = forceOptions \<rparr>] \<and>
   requests (snd (getSession oldSessionHost github noOptions [''repo''] True freshStore)) =
     [\<lparr> req_provider = github, req_scopes = [''repo''], req_options = noOptions \<rparr>]"
proof -
  have differ: "SCOPES_WITH_ADDITIONAL \<noteq> SCOPES_OLD"
    by (simp add: SCOPES_WITH_ADDITIONAL_def SCOPES_OLD_def)
  have empty: "requests freshStore = []"
    by (simp add: freshStore_def)
  have "truthy_force (forceNewSession forceOptions)" "\<not> truthy_force (forceNewSession noOptions)"
    by (simp_all add: forceOptions_def noOptions_def)
  then show ?thesis
    using differ empty
      getSession_preference_order [where host = oldSessionHost and authProviderId = github
        and opts = noOptions and scopes = "[''repo'']" and requireScopes = False and this = freshStore]
      getSession_preference_order [where host = oldSessionHost and authProviderId = github
        and opts = forceOptions and scopes = "[''repo'']" and requireScopes = False and this = freshStore]
      getSession_preference_order [where host = oldSessionHost and authProviderId = github
        and opts = noOptions and scopes = "[''repo'']" and requireScopes = True and this = freshStore]
    by (simp add: oldSessionHost_def dotcomHost_def)
qed

subsection \<open>A failing request for a session\<close>








subsection \<open>Merging a query schema with the shared schema\<close>

text \<open>Cells that are there stay where they are when the heap grows.\<close>

lemma object_at_append: "object_at h a = Some props \<Longrightarrow> object_at (h @ h') a = Some props"
  by (auto simp: object_at_def nth_append split: if_splits)

lemma array_at_append: "array_at h v = Some xs \<Longrightarrow> array_at (h @ h') v = Some xs"
  by (auto simp: array_at_def nth_append split: jsval.splits if_splits)

text \<open>
  Claim C10. For two schemas (objects whose \<^verbatim>\<open>definitions\<close> is an array),
  \<^verbatim>\<open>mergeQuerySchemaWithShared\<close> returns an object whose \<^verbatim>\<open>definitions\<close> is the
  definitions of \<^verbatim>\<open>schema\<close> followed by those of \<^verbatim>\<open>sharedSchema\<close>; every other key has
  the value of \<^verbatim>\<open>sharedSchema\<close> when \<^verbatim>\<open>sharedSchema\<close> has the key and the value of
  \<^verbatim>\<open>schema\<close> otherwise. No cell of the heap the function was called with is changed, so
  both schemas and their arrays are as they were.
\<close>

theorem mergeQuerySchemaWithShared_result:
  assumes shared: "object_at h sharedSchema = Some shared"
      and own: "object_at h schema = Some own"
      and sharedDefs: "array_at h (get_property shared ''definitions'') = Some ys"
      and ownDefs: "array_at h (get_property own ''definitions'') = Some xs"
  shows "\<exists>h' r merged.
           mergeQuerySchemaWithShared h sharedSchema schema = Inr (h', r) \<and>
           object_at h' r = Some merged \<and>
           array_at h' (get_property merged ''definitions'') = Some (xs @ ys) \<and>
           (\<forall>k. k \<noteq> ''definitions'' \<longrightarrow>
                  merged k = (if k \<in> dom shared then shared k else own k)) \<and>
           take (length h) h' = h \<and>
           object_at h' sharedSchema = Some shared \<and>
           object_at h' schema = Some own \<and>
           array_at h' (get_property shared ''definitions'') = Some ys \<and>
           array_at h' (get_property own ''definitions'') = Some xs"
proof -
  let ?arr = "JArray (xs @ ys)"
  let ?merged = "(own ++ shared)(''definitions'' \<mapsto> JRef (length h))"
  let ?h' = "(h @ [?arr]) @ [JObject ?merged]"
  have run: "mergeQuerySchemaWithShared h sharedSchema schema = Inr (?h', Suc (length h))"
    using shared own sharedDefs ownDefs
    by (simp add: mergeQuerySchemaWithShared_def concat_argument_def Let_def)
  have obj: "object_at ?h' (Suc (length h)) = Some ?merged"
    by (simp add: object_at_def nth_append)
  have arr: "array_at ?h' (get_property ?merged ''definitions'') = Some (xs @ ys)"
    by (simp add: array_at_def get_property_def nth_append)
  have other: "\<forall>k. k \<noteq> ''definitions'' \<longrightarrow>
                 ?merged k = (if k \<in> dom shared then shared k else own k)"
    by (auto simp: map_add_def split: option.splits)
  have keep: "take (length h) ?h' = h"
    by simp
  have s1: "object_at ?h' sharedSchema = Some shared"
    using shared by (simp add: object_at_append)
  have s2: "object_at ?h' schema = Some own"
    using own by (simp add: object_at_append)
  have s3: "array_at ?h' (get_property shared ''definitions'') = Some ys"
    using sharedDefs by (simp add: array_at_append)
  have s4: "array_at ?h' (get_property own ''definitions'') = Some xs"
    using ownDefs by (simp add: array_at_append)
  from run obj arr other keep s1 s2 s3 s4 show ?thesis
    by blast
qed

text \<open>
  Two schemas on a heap of four cells: both have \<^verbatim>\<open>kind\<close>, only \<^verbatim>\<open>schema\<close> has
  \<^verbatim>\<open>loc\<close>, neither has \<^verbatim>\<open>name\<close>.
\<close>

theorem mergeQuerySchemaWithShared_result_witness:
  "\<exists>h' r merged.
     mergeQuerySchemaWithShared schemaHeap 1 3 = Inr (h', r) \<and>
     object_at h' r = Some merged \<and>
     array_at h' (get_property merged ''definitions'') = Some [JPrim 2, JPrim 1] \<and>
     merged ''kind'' = Some (JPrim 7) \<and>
     merged ''loc'' = Some (JPrim 3) \<and>
     merged ''name'' = None \<and>
     take 4 h' = schemaHeap \<and>
     array_at h' (JRef 0) = Some [JPrim 1] \<and>
     array_at h' (JRef 2) = Some [JPrim 2]"
proof -
  let ?shared = "[''definitions'' \<mapsto> JRef 0, ''kind'' \<mapsto> JPrim (7::nat)]"
  let ?own = "[''definitions'' \<mapsto> JRef 2, ''kind'' \<mapsto> JPrim (9::nat), ''loc'' \<mapsto> JPrim 3]"
  have a: "object_at schemaHeap 1 = Some ?shared"
    by (simp add: object_at_def schemaHeap_def)
  have b: "object_at schemaHeap 3 = Some ?own"
    by (simp add: object_at_def schemaHeap_def)
  have c: "array_at schemaHeap (get_property ?shared ''definitions'') = Some [JPrim 1]"
    by (simp add: array_at_def get_property_def schemaHeap_def)
  have d: "array_at schemaHeap (get_property ?own ''definitions'') = Some [JPrim 2]"
    by (simp add: array_at_def get_property_def schemaHeap_def)
  have len: "length schemaHeap = 4"
    by (simp add: schemaHeap_def)
  from mergeQuerySchemaWithShared_result [OF a b c d]
  obtain h' r merged where
    r: "mergeQuerySchemaWithShared schemaHeap 1 3 = Inr (h', r)"
      "object_at h' r = Some merged"
      "array_at h' (get_property merged ''definitions'') = Some ([JPrim 2] @ [JPrim 1])"
      "\<forall>k. k \<noteq> ''definitions'' \<longrightarrow> merged k = (if k \<in> dom ?shared then ?shared k else ?own k)"
      "take (length schemaHeap) h' = schemaHeap"
      "array_at h' (get_property ?shared ''definitions'') = Some [JPrim 1]"
      "array_at h' (get_property ?own ''definitions'') = Some [JPrim 2]"
    by blast
  from r(4) have "merged ''kind'' = Some (JPrim 7)" "merged ''loc'' = Some (JPrim 3)"
    "merged ''name'' = None"
    by simp_all
  with r len show ?thesis
    by (simp add: get_property_def)
qed

subsection \<open>The list of reviewers\<close>

text \<open>What \<open>findIndex\<close> finds: nothing when nothing matches, else the first match.\<close>

lemma findIndex_None: "findIndex P xs = None \<longleftrightarrow> (\<forall>x \<in> set xs. \<not> P x)"
  by (induction xs) auto

lemma findIndex_Some:
  "findIndex P xs = Some i \<Longrightarrow> i < length xs \<and> P (xs ! i) \<and> (\<forall>j<i. \<not> P (xs ! j))"
proof (induction xs arbitrary: i)
  case Nil
  then show ?case by simp
next
  case (Cons x xs)
  show ?case
  proof (cases "P x")
    case True
    with Cons.prems show ?thesis by simp
  next
    case False
    with Cons.prems obtain k where k: "findIndex P xs = Some k" "i = Suc k"
      by auto
    from Cons.IH [OF k(1)] False k(2) show ?thesis
      by (auto simp: nth_Cons split: nat.splits)
  qed
qed

text \<open>
  Claim C4. For a review that has a (non-empty) state, \<^verbatim>\<open>updateReviewers\<close> is an upsert on
  \<^verbatim>\<open>_existingReviewers\<close>, keyed by the login of the review's user against \<^verbatim>\<open>reviewerId\<close> of
  each entry. When some entry matches, the list keeps its length and differs from the old
  one only at the first matching entry, and there only in the state, which is the
  review's state. When no entry matches, the list is the old one followed by one entry:
  the review's user with the review's state.
\<close>

theorem updateReviewers_upsert:
  fixes host review this st
  defines "matches \<equiv> (\<lambda>rv. login (user review) = reviewerId host (reviewer rv))"
      and "old \<equiv> existingReviewers this"
      and "new \<equiv> existingReviewers (updateReviewers host (Some review) this)"
  assumes stated: "event_state review = Some st" "st \<noteq> []"
  shows "((\<exists>rv \<in> set old. matches rv) \<longrightarrow>
            length new = length old \<and>
            (\<exists>i<length old. matches (old ! i) \<and> (\<forall>j<i. \<not> matches (old ! j)) \<and>
                 new = old[i := (old ! i)\<lparr> state := st \<rparr>])) \<and>
         ((\<forall>rv \<in> set old. \<not> matches rv) \<longrightarrow>
            new = old @ [\<lparr> reviewer = Account (user review), state = st \<rparr>]) \<and>
         effects (updateReviewers host (Some review) this) = effects this"
proof (cases "findIndex matches old")
  case None
  then have "\<forall>rv \<in> set old. \<not> matches rv"
    by (simp add: findIndex_None)
  moreover from None stated
  have "updateReviewers host (Some review) this =
          this\<lparr> existingReviewers := old @ [\<lparr> reviewer = Account (user review), state = st \<rparr>] \<rparr>"
    by (simp add: updateReviewers_def matches_def old_def)
  ultimately show ?thesis
    by (simp add: new_def)
next
  case (Some i)
  from findIndex_Some [OF Some]
  have i: "i < length old" "matches (old ! i)" "\<forall>j<i. \<not> matches (old ! j)"
    by simp_all
  from Some stated
  have "updateReviewers host (Some review) this =
          this\<lparr> existingReviewers := old[i := (old ! i)\<lparr> state := st \<rparr>] \<rparr>"
    by (simp add: updateReviewers_def matches_def old_def)
  then have new: "new = old[i := (old ! i)\<lparr> state := st \<rparr>]"
    and eff: "effects (updateReviewers host (Some review) this) = effects this"
    by (simp_all add: new_def)
  from i have "\<exists>rv \<in> set old. matches rv"
    using nth_mem by blast
  with i new eff show ?thesis
    by auto
qed


text \<open>Bob approves: his entry changes. Carol approves: she is added at the end.\<close>

theorem updateReviewers_upsert_witness:
  "existingReviewers (updateReviewers friendlyHost (Some (approval bob)) twoReviewers) =
     [\<lparr> reviewer = Account alice, state = ''REQUESTED'' \<rparr>,
      \<lparr> reviewer = Account bob, state = ''APPROVED'' \<rparr>] \<and>
   existingReviewers (updateReviewers friendlyHost (Some (approval carol)) twoReviewers) =
     [\<lparr> reviewer = Account alice, state = ''REQUESTED'' \<rparr>,
      \<lparr> reviewer = Account bob, state = ''COMMENTED'' \<rparr>,
      \<lparr> reviewer = Account carol, state = ''APPROVED'' \<rparr>]"
proof -
  have b: "existingReviewers (updateReviewers friendlyHost (Some (approval bob)) twoReviewers) =
     [\<lparr> reviewer = Account alice, state = ''REQUESTED'' \<rparr>,
      \<lparr> reviewer = Account bob, state = ''APPROVED'' \<rparr>]"
    using updateReviewers_upsert [where host = friendlyHost and review = "approval bob"
      and this = twoReviewers and st = "''APPROVED''"]
    by (simp add: twoReviewers_def friendlyHost_def approval_def alice_def bob_def
          less_Suc_eq ex_disj_distrib conj_disj_distribR)
  have c: "existingReviewers (updateReviewers friendlyHost (Some (approval carol)) twoReviewers) =
     [\<lparr> reviewer = Account alice, state = ''REQUESTED'' \<rparr>,
      \<lparr> reviewer = Account bob, state = ''COMMENTED'' \<rparr>,
      \<lparr> reviewer = Account carol, state = ''APPROVED'' \<rparr>]"
    using updateReviewers_upsert [where host = friendlyHost and review = "approval carol"
      and this = twoReviewers and st = "''APPROVED''"]
    by (simp add: twoReviewers_def friendlyHost_def approval_def alice_def bob_def carol_def)
  from b c show ?thesis by simp
qed

subsection \<open>Submitting a review from the webview\<close>

text \<open>
  Claim C3. When the submit action of \<^verbatim>\<open>doReviewMessage\<close> rejects,
  \<^verbatim>\<open>_existingReviewers\<close> is left as it was, and the error is shown and forwarded to the
  webview by \<^verbatim>\<open>_throwError\<close> for the message at hand, with the formatted error as text;
  no reply is sent. When the action resolves, \<^verbatim>\<open>_existingReviewers\<close> is what
  \<^verbatim>\<open>updateReviewers\<close> makes of it for the review, and that list is replied. The three
  webview requests (approve, request changes, comment) are \<^verbatim>\<open>doReviewMessage\<close> with the
  respective action.
\<close>

theorem doReviewMessage_reviewers:
  "(\<forall>e. action (args message) = Inl e \<longrightarrow>
      existingReviewers (doReviewMessage host message action this) = existingReviewers this \<and>
      effects (doReviewMessage host message action this) =
        effects this @
          [ShowErrorMessage (l10n_t host ''Submitting review failed. {0}'' [formatError host e])
             False,
           ThrowError (req message) (ThrownText (formatError host e))]) \<and>
   (\<forall>review. action (args message) = Inr review \<longrightarrow>
      existingReviewers (doReviewMessage host message action this) =
        existingReviewers (updateReviewers host (Some review) this) \<and>
      effects (doReviewMessage host message action this) =
        effects this @
          [ReplyMessage (req message)
             (ReplySubmitReview [] review
                (existingReviewers (updateReviewers host (Some review) this)))]) \<and>
   approvePullRequestMessage host message this =
     doReviewMessage host message (reviewAction host approve) this \<and>
   requestChangesMessage host message this =
     doReviewMessage host message (reviewAction host requestChanges) this \<and>
   submitReviewMessage host message this =
     doReviewMessage host message (reviewAction host submitReview) this"
proof -
  have upd: "effects (updateReviewers host review this) = effects this" for review
    by (simp add: updateReviewers_def split: option.splits)
  have rejected: "existingReviewers (doReviewMessage host message action this) =
        existingReviewers this \<and>
      effects (doReviewMessage host message action this) =
        effects this @
          [ShowErrorMessage (l10n_t host ''Submitting review failed. {0}'' [formatError host e])
             False,
           ThrowError (req message) (ThrownText (formatError host e))]"
    if "action (args message) = Inl e" for e
    using that by (simp add: doReviewMessage_def emit_def)
  have resolved: "existingReviewers (doReviewMessage host message action this) =
        existingReviewers (updateReviewers host (Some review) this) \<and>
      effects (doReviewMessage host message action this) =
        effects this @
          [ReplyMessage (req message)
             (ReplySubmitReview [] review
                (existingReviewers (updateReviewers host (Some review) this)))]"
    if "action (args message) = Inr review" for review
    using that by (simp add: doReviewMessage_def emit_def Let_def upd)
  have wrappers: "approvePullRequestMessage host message this =
       doReviewMessage host message (reviewAction host approve) this"
    "requestChangesMessage host message this =
       doReviewMessage host message (reviewAction host requestChanges) this"
    "submitReviewMessage host message this =
       doReviewMessage host message (reviewAction host submitReview) this"
    by (simp_all add: approvePullRequestMessage_def requestChangesMessage_def
          submitReviewMessage_def approvePullRequest_def requestChanges_action_def
          submitReview_action_def doReviewMessage_def)
  from rejected resolved wrappers show ?thesis
    by blast
qed

text \<open>
  An approval that the server rejects leaves the two reviewers as they are; one that it
  accepts adds the approving user.
\<close>

theorem doReviewMessage_reviewers_witness:
  "existingReviewers (approvePullRequestMessage rejectingHost approveRequest twoReviewers) =
     existingReviewers twoReviewers \<and>
   effects (approvePullRequestMessage rejectingHost approveRequest twoReviewers) =
     [ShowErrorMessage ''Submitting review failed. {0}'' False,
      ThrowError ''7'' (ThrownText ''Validation Failed'')] \<and>
   existingReviewers (approvePullRequestMessage friendlyHost approveRequest twoReviewers) =
     existingReviewers (updateReviewers friendlyHost (Some (approval carol)) twoReviewers)"
  using doReviewMessage_reviewers [where host = rejectingHost and message = approveRequest
      and this = twoReviewers and action = "reviewAction rejectingHost approve"]
    doReviewMessage_reviewers [where host = friendlyHost and message = approveRequest
      and this = twoReviewers and action = "reviewAction friendlyHost approve"]
  by (simp add: rejectingHost_def friendlyHost_def approveRequest_def twoReviewers_def)

subsection \<open>Merging from the webview\<close>

text \<open>
  Claim C1. In what \<^verbatim>\<open>mergePullRequest\<close> does for a \<^verbatim>\<open>pr.merge\<close> message, a merge on the
  folder repository manager occurs only when the user has answered the modal dialog
  \<^verbatim>\<open>Merge this pull request?\<close> with \<^verbatim>\<open>Yes\<close>, and then it is the one thing done right after
  that dialog. With any other answer the handler replies with the state \<open>Open\<close> and
  does nothing else. When the merge is attempted and resolves, the one reply carries
  \<open>Merged\<close> if the result says merged and \<open>Open\<close> if not; when it rejects there is no
  reply, the error goes to the webview.
\<close>

theorem mergePullRequest_confirmation:
  fixes host message this
  defines "yes \<equiv> l10n_t host ''Yes'' []"
  defines "dialog \<equiv> ShowInformationMessage (l10n_t host ''Merge this pull request?'' []) True
                       [yes] (answerMergeDialog host)"
      and "merge \<equiv> (\<lambda>email. MergePullRequest (title (args message)) (description (args message))
                                (mergeMethod (args message)) email)"
      and "new \<equiv> drop (length (effects this)) (effects (snd (mergePullRequest host message this)))"
  shows "effects (snd (mergePullRequest host message this)) = effects this @ new \<and>
         existingReviewers (snd (mergePullRequest host message this)) = existingReviewers this \<and>
         ((\<exists>t d m e. MergePullRequest t d m e \<in> set new) \<longrightarrow>
            answerMergeDialog host = Some yes \<and>
            (\<exists>email rest. new = [GetPreferredEmail, dialog, merge email] @ rest \<and>
               (\<forall>t d m e. MergePullRequest t d m e \<notin> set rest))) \<and>
         (\<forall>email. getPreferredEmail host = Inr email \<and> answerMergeDialog host \<noteq> Some yes \<longrightarrow>
            new = [GetPreferredEmail, dialog, ReplyMessage (req message) (ReplyState Open)]) \<and>
         (\<forall>email result.
            getPreferredEmail host = Inr email \<and> answerMergeDialog host = Some yes \<and>
            mergePullRequestResult host = Inr result \<longrightarrow>
              merge email \<in> set new \<and>
              (\<forall>q r. ReplyMessage q r \<in> set new \<longleftrightarrow>
                 q = req message \<and>
                 r = ReplyState (if merged result then Merged else Open))) \<and>
         (\<forall>email e.
            getPreferredEmail host = Inr email \<and> answerMergeDialog host = Some yes \<and>
            mergePullRequestResult host = Inl e \<longrightarrow>
              merge email \<in> set new \<and>
              (\<forall>q r. ReplyMessage q r \<notin> set new) \<and>
              ThrowError (req message) ThrownEmpty \<in> set new)"
proof -
  let ?after = "snd (mergePullRequest host message this)"
  have noEmail: "effects ?after = effects this @ [GetPreferredEmail]"
    if "getPreferredEmail host = Inl e" for e
    using that by (simp add: mergePullRequest_def emit_def)
  have declined: "effects ?after =
      effects this @ [GetPreferredEmail, dialog, ReplyMessage (req message) (ReplyState Open)]"
    if "getPreferredEmail host = Inr email" "answerMergeDialog host \<noteq> Some yes" for email
    using that by (simp add: mergePullRequest_def emit_def Let_def dialog_def yes_def)
  have resolved: "effects ?after =
      effects this @ [GetPreferredEmail, dialog, merge email] @
        ([ExecuteCommand ''pr.refreshList''] @
         (if \<not> merged result
          then [ShowErrorMessage
                  (l10n_t host ''Merging PR failed: {0}''
                     [case merge_message result of None \<Rightarrow> [] | Some m \<Rightarrow> m]) False]
          else []) @
         [ReplyMessage (req message) (ReplyState (if merged result then Merged else Open))])"
    if "getPreferredEmail host = Inr email" "answerMergeDialog host = Some yes"
       "mergePullRequestResult host = Inr result" for email result
    using that
    by (simp add: mergePullRequest_def emit_def Let_def dialog_def yes_def merge_def)
  have rejected: "effects ?after =
      effects this @ [GetPreferredEmail, dialog, merge email] @
        [ShowErrorMessage (l10n_t host ''Unable to merge pull request. {0}'' [formatError host e])
           False,
         ThrowError (req message) ThrownEmpty]"
    if "getPreferredEmail host = Inr email" "answerMergeDialog host = Some yes"
       "mergePullRequestResult host = Inl e" for email e
    using that
    by (simp add: mergePullRequest_def emit_def Let_def dialog_def yes_def merge_def)
  have reviewers: "existingReviewers ?after = existingReviewers this"
    by (simp add: mergePullRequest_def emit_def Let_def split: sum.splits)
  show ?thesis
  proof (cases "getPreferredEmail host")
    case (Inl e)
    from noEmail [OF Inl] have "new = [GetPreferredEmail]"
      by (simp add: new_def)
    with noEmail [OF Inl] reviewers Inl show ?thesis
      by simp
  next
    case (Inr email)
    show ?thesis
    proof (cases "answerMergeDialog host = Some yes")
      case False
      from declined [OF Inr False]
      have "new = [GetPreferredEmail, dialog, ReplyMessage (req message) (ReplyState Open)]"
        by (simp add: new_def)
      with declined [OF Inr False] reviewers Inr False show ?thesis
        by (simp add: dialog_def)
    next
      case True
      show ?thesis
      proof (cases "mergePullRequestResult host")
        case (Inl e)
        from rejected [OF Inr True Inl]
        have new: "new = [GetPreferredEmail, dialog, merge email] @
            [ShowErrorMessage
               (l10n_t host ''Unable to merge pull request. {0}'' [formatError host e]) False,
             ThrowError (req message) ThrownEmpty]"
          by (simp add: new_def)
        have "\<forall>t d m e'. MergePullRequest t d m e' \<notin> set
            [ShowErrorMessage
               (l10n_t host ''Unable to merge pull request. {0}'' [formatError host e]) False,
             ThrowError (req message) ThrownEmpty]"
          by simp
        with new have "\<exists>email rest. new = [GetPreferredEmail, dialog, merge email] @ rest \<and>
               (\<forall>t d m e. MergePullRequest t d m e \<notin> set rest)"
          by blast
        moreover from new have "merge email \<in> set new"
          "\<forall>q r. ReplyMessage q r \<notin> set new" "ThrowError (req message) ThrownEmpty \<in> set new"
          by (simp_all add: dialog_def merge_def)
        moreover from rejected [OF Inr True Inl] new
        have "effects ?after = effects this @ new"
          by simp
        ultimately show ?thesis
          using reviewers Inr True Inl by simp
      next
        case (Inr result)
        let ?rest = "[ExecuteCommand ''pr.refreshList''] @
         (if \<not> merged result
          then [ShowErrorMessage
                  (l10n_t host ''Merging PR failed: {0}''
                     [case merge_message result of None \<Rightarrow> [] | Some m \<Rightarrow> m]) False]
          else []) @
         [ReplyMessage (req message) (ReplyState (if merged result then Merged else Open))]"
        from resolved [OF \<open>getPreferredEmail host = Inr email\<close> True Inr]
        have eff: "effects ?after = effects this @ [GetPreferredEmail, dialog, merge email] @ ?rest" .
        then have new: "new = [GetPreferredEmail, dialog, merge email] @ ?rest"
          by (simp add: new_def)
        have "\<forall>t d m e'. MergePullRequest t d m e' \<notin> set ?rest"
          by simp
        with new have "\<exists>email rest. new = [GetPreferredEmail, dialog, merge email] @ rest \<and>
               (\<forall>t d m e. MergePullRequest t d m e \<notin> set rest)"
          by blast
        moreover from new have "merge email \<in> set new"
          by simp
        moreover from new have "\<forall>q r. ReplyMessage q r \<in> set new \<longleftrightarrow>
                 q = req message \<and> r = ReplyState (if merged result then Merged else Open)"
          by (auto simp: dialog_def merge_def)
        moreover from eff new have "effects ?after = effects this @ new"
          by simp
        ultimately show ?thesis
          using reviewers \<open>getPreferredEmail host = Inr email\<close> True Inr by simp
      qed
    qed
  qed
qed


text \<open>
  The dialog dismissed: the reply is \<open>Open\<close> and nothing was merged. The dialog confirmed:
  the merge is made, and the reply is \<open>Merged\<close> or \<open>Open\<close> as the result says.
\<close>

theorem mergePullRequest_confirmation_witness:
  "effects (snd (mergePullRequest dismissingHost mergeRequest twoReviewers)) =
     [GetPreferredEmail,
      ShowInformationMessage ''Merge this pull request?'' True [''Yes''] None,
      ReplyMessage ''9'' (ReplyState Open)] \<and>
   MergePullRequest (Some ''Add tests'') None ''squash'' (Some ''alice@example.org'')
     \<in> set (effects (snd (mergePullRequest friendlyHost mergeRequest twoReviewers))) \<and>
   ReplyMessage ''9'' (ReplyState Merged)
     \<in> set (effects (snd (mergePullRequest friendlyHost mergeRequest twoReviewers))) \<and>
   ReplyMessage ''9'' (ReplyState Open)
     \<in> set (effects (snd (mergePullRequest conflictHost mergeRequest twoReviewers)))"
proof -
  have a: "effects (snd (mergePullRequest dismissingHost mergeRequest twoReviewers)) =
     [GetPreferredEmail,
      ShowInformationMessage ''Merge this pull request?'' True [''Yes''] None,
      ReplyMessage ''9'' (ReplyState Open)]"
    using mergePullRequest_confirmation [where host = dismissingHost and message = mergeRequest
        and this = twoReviewers]
    by (simp add: dismissingHost_def friendlyHost_def mergeRequest_def twoReviewers_def)
  have b: "MergePullRequest (Some ''Add tests'') None ''squash'' (Some ''alice@example.org'')
     \<in> set (effects (snd (mergePullRequest friendlyHost mergeRequest twoReviewers))) \<and>
   ReplyMessage ''9'' (ReplyState Merged)
     \<in> set (effects (snd (mergePullRequest friendlyHost mergeRequest twoReviewers)))"
    using mergePullRequest_confirmation [where host = friendlyHost and message = mergeRequest
        and this = twoReviewers]
    by (simp add: friendlyHost_def mergeRequest_def twoReviewers_def)
  have c: "ReplyMessage ''9'' (ReplyState Open)
     \<in> set (effects (snd (mergePullRequest conflictHost mergeRequest twoReviewers)))"
    using mergePullRequest_confirmation [where host = conflictHost and message = mergeRequest
        and this = twoReviewers]
    by (simp add: conflictHost_def friendlyHost_def mergeRequest_def twoReviewers_def)
  from a b c show ?thesis
    by simp
qed

subsection \<open>Updating the branch\<close>

lemma polls_append: "polls (xs @ ys) = polls xs @ polls ys"
  by (induction xs rule: polls.induct) simp_all

text \<open>
  The loop, entered with any number of attempts: it polls at least once and at most
  \<open>attemptsRemaining\<close> times (once when that is not positive), every poll but the last
  returned \<open>Unknown\<close>, and when it stops before the attempts are used up, the last poll did
  not. What it returns is what the last poll returned.
\<close>

lemma pollMergeability_trace:
  "\<exists>new. effects (snd (pollMergeability host attemptsRemaining this)) = effects this @ new \<and>
         existingReviewers (snd (pollMergeability host attemptsRemaining this)) =
           existingReviewers this \<and>
         1 \<le> length (polls new) \<and>
         int (length (polls new)) \<le> max 1 attemptsRemaining \<and>
         (\<forall>i. Suc i < length (polls new) \<longrightarrow> polls new ! i = Inr Unknown) \<and>
         (int (length (polls new)) < max 1 attemptsRemaining \<longrightarrow>
            last (polls new) \<noteq> Inr Unknown) \<and>
         fst (pollMergeability host attemptsRemaining this) = last (polls new)"
proof (induction host attemptsRemaining this rule: pollMergeability.induct)
  case (1 host attemptsRemaining this)
  show ?case
  proof (cases "getMergeability host (effects this)")
    case (Inl e)
    then have "pollMergeability host attemptsRemaining this =
                 (Inl e, emit [GetMergeability (Inl e)] this)"
      by (subst pollMergeability.simps) simp
    then show ?thesis
      by (simp add: emit_def)
  next
    case (Inr mergability)
    let ?step = "[GetMergeability (Inr mergability), SetTimeout 1000]"
    let ?this1 = "emit ?step this"
    show ?thesis
    proof (cases "attemptsRemaining - 1 > 0 \<and> mergability = Unknown")
      case False
      with Inr have "pollMergeability host attemptsRemaining this = (Inr mergability, ?this1)"
        by (subst pollMergeability.simps) (auto simp: Let_def)
      moreover have "polls ?step = [Inr mergability]"
        by simp
      moreover from False have "1 < max 1 attemptsRemaining \<longrightarrow> mergability \<noteq> Unknown"
        by auto
      ultimately show ?thesis
        by (simp add: emit_def)
    next
      case True
      with Inr have run: "pollMergeability host attemptsRemaining this =
                       pollMergeability host (attemptsRemaining - 1) ?this1"
        by (subst pollMergeability.simps) (simp add: Let_def)
      from "1.IH" [OF Inr refl refl True]
      obtain new where new:
        "effects (snd (pollMergeability host (attemptsRemaining - 1) ?this1)) =
           effects ?this1 @ new"
        "existingReviewers (snd (pollMergeability host (attemptsRemaining - 1) ?this1)) =
           existingReviewers ?this1"
        "1 \<le> length (polls new)"
        "int (length (polls new)) \<le> max 1 (attemptsRemaining - 1)"
        "\<forall>i. Suc i < length (polls new) \<longrightarrow> polls new ! i = Inr Unknown"
        "int (length (polls new)) < max 1 (attemptsRemaining - 1) \<longrightarrow>
           last (polls new) \<noteq> Inr Unknown"
        "fst (pollMergeability host (attemptsRemaining - 1) ?this1) = last (polls new)"
        by blast
      let ?all = "?step @ new"
      have p: "polls ?all = Inr Unknown # polls new"
        using True by simp
      have e: "effects (snd (pollMergeability host attemptsRemaining this)) = effects this @ ?all"
        using run new(1) by (simp add: emit_def)
      have r: "existingReviewers (snd (pollMergeability host attemptsRemaining this)) =
                 existingReviewers this"
        using run new(2) by (simp add: emit_def)
      have nonempty: "polls new \<noteq> []"
        using new(3) by auto
      have c1: "1 \<le> length (polls ?all)"
        unfolding p by simp
      have c2: "int (length (polls ?all)) \<le> max 1 attemptsRemaining"
        unfolding p using new(4) True by auto
      have c3: "\<forall>i. Suc i < length (polls ?all) \<longrightarrow> polls ?all ! i = Inr Unknown"
        unfolding p using new(5) by (auto simp: nth_Cons split: nat.splits)
      have c4: "int (length (polls ?all)) < max 1 attemptsRemaining \<longrightarrow>
                  last (polls ?all) \<noteq> Inr Unknown"
        unfolding p using new(6) True nonempty by auto
      have c5: "fst (pollMergeability host attemptsRemaining this) = last (polls ?all)"
        unfolding p using run new(7) nonempty by simp
      from e r c1 c2 c3 c4 c5 show ?thesis
        by blast
    qed
  qed
qed


text \<open>After the loop, \<^verbatim>\<open>updateBranch\<close> polls no more.\<close>

lemma updateBranch_clean:
  assumes "workingTreeChanges host = []" "indexChanges host = []"
      and "tryMergeBaseIntoHead host = Inr mergeSucceeded"
  shows "\<exists>before rest.
           polls before = [] \<and> polls rest = [] \<and>
           effects (snd (updateBranch host message this)) =
             effects (snd (pollMergeability host 5 (emit before this))) @ rest"
proof -
  let ?before = "[TryMergeBaseIntoHead] @
        (if \<not> mergeSucceeded then [ReplyMessage (req message) ReplyEmpty] else [])"
  have "polls ?before = []"
    by simp
  moreover
  have "\<exists>rest. polls rest = [] \<and>
          effects (snd (updateBranch host message this)) =
            effects (snd (pollMergeability host 5 (emit ?before this))) @ rest"
  proof (cases "pollMergeability host 5 (emit ?before this)")
    case (Pair r this2)
    show ?thesis
    proof (cases r)
      case (Inl e)
      with Pair assms have "effects (snd (updateBranch host message this)) = effects this2 @ []"
        by (simp add: updateBranch_def Let_def)
      with Pair show ?thesis
        by (metis polls.simps(1) snd_conv)
    next
      case (Inr mergability)
      with Pair assms
      have "effects (snd (updateBranch host message this)) = effects this2 @ [GetTimelineEvents]
          \<or> effects (snd (updateBranch host message this)) =
               effects this2 @ [GetTimelineEvents, Refresh]
          \<or> (\<exists>reply. effects (snd (updateBranch host message this)) =
               effects this2 @ [GetTimelineEvents, Refresh, ReplyMessage (req message) reply])"
        by (simp add: updateBranch_def Let_def emit_def split: sum.splits option.splits)
      moreover have "polls [GetTimelineEvents] = []" "polls [GetTimelineEvents, Refresh] = []"
        "polls [GetTimelineEvents, Refresh, ReplyMessage (req message) reply] = []" for reply
        by simp_all
      ultimately show ?thesis
        using Pair by (metis snd_conv)
    qed
  qed
  ultimately show ?thesis
    by blast
qed

text \<open>
  Claim C9. With a change in the working tree or in the index, \<^verbatim>\<open>updateBranch\<close> shows the
  modal error message and replies; it attempts no merge of the base into the head and
  does not poll. In every case the loop is left after at most five polls, and every poll
  before the last one returned \<open>Unknown\<close>. When the loop is reached, it polls at least once,
  and when it polls fewer than five times the last poll did not return \<open>Unknown\<close>. The
  functions are total: whatever the host answers, \<^verbatim>\<open>updateBranch\<close> comes to an end.
\<close>

theorem updateBranch_polls:
  fixes host message this
  defines "new \<equiv> drop (length (effects this)) (effects (snd (updateBranch host message this)))"
  shows "effects (snd (updateBranch host message this)) = effects this @ new \<and>
         (length (workingTreeChanges host) > 0 \<or> length (indexChanges host) > 0 \<longrightarrow>
            fst (updateBranch host message this) = Inr () \<and>
            new = [ShowErrorMessage (l10n_t host changedFilesText []) True,
                   ReplyMessage (req message) ReplyEmpty] \<and>
            TryMergeBaseIntoHead \<notin> set new) \<and>
         length (polls new) \<le> 5 \<and>
         (\<forall>i. Suc i < length (polls new) \<longrightarrow> polls new ! i = Inr Unknown) \<and>
         (workingTreeChanges host = [] \<and> indexChanges host = [] \<and>
          (\<exists>mergeSucceeded. tryMergeBaseIntoHead host = Inr mergeSucceeded) \<longrightarrow>
            1 \<le> length (polls new) \<and>
            (length (polls new) < 5 \<longrightarrow> last (polls new) \<noteq> Inr Unknown))"
proof (cases "length (workingTreeChanges host) > 0 \<or> length (indexChanges host) > 0")
  case True
  then have "updateBranch host message this =
      (Inr (), emit [ShowErrorMessage (l10n_t host changedFilesText []) True,
                     ReplyMessage (req message) ReplyEmpty] this)"
    by (simp add: updateBranch_def)
  then have "fst (updateBranch host message this) = Inr ()"
    and "effects (snd (updateBranch host message this)) =
      effects this @ [ShowErrorMessage (l10n_t host changedFilesText []) True,
                      ReplyMessage (req message) ReplyEmpty]"
    by (simp_all add: emit_def)
  moreover from this have "new = [ShowErrorMessage (l10n_t host changedFilesText []) True,
                   ReplyMessage (req message) ReplyEmpty]"
    by (simp add: new_def)
  ultimately show ?thesis
    using True by auto
next
  case False
  then have clean: "workingTreeChanges host = []" "indexChanges host = []"
    by simp_all
  show ?thesis
  proof (cases "tryMergeBaseIntoHead host")
    case (Inl e)
    with clean have "effects (snd (updateBranch host message this)) =
        effects this @ [TryMergeBaseIntoHead]"
      by (simp add: updateBranch_def emit_def)
    moreover from this have "new = [TryMergeBaseIntoHead]"
      by (simp add: new_def)
    ultimately show ?thesis
      using False Inl by simp
  next
    case (Inr mergeSucceeded)
    from updateBranch_clean [OF clean Inr]
    obtain before rest where br: "polls before = []" "polls rest = []"
      "effects (snd (updateBranch host message this)) =
         effects (snd (pollMergeability host 5 (emit before this))) @ rest"
      by blast
    from pollMergeability_trace [of host 5 "emit before this"]
    obtain polled where polled:
      "effects (snd (pollMergeability host 5 (emit before this))) =
         effects (emit before this) @ polled"
      "1 \<le> length (polls polled)"
      "int (length (polls polled)) \<le> max 1 5"
      "\<forall>i. Suc i < length (polls polled) \<longrightarrow> polls polled ! i = Inr Unknown"
      "int (length (polls polled)) < max 1 5 \<longrightarrow> last (polls polled) \<noteq> Inr Unknown"
      by blast
    from br(3) polled(1)
    have eff: "effects (snd (updateBranch host message this)) =
                 effects this @ (before @ polled @ rest)"
      by (simp add: emit_def)
    then have new: "new = before @ polled @ rest"
      by (simp add: new_def)
    have p: "polls new = polls polled"
      by (simp add: new polls_append br)
    from polled(3) have "length (polls polled) \<le> 5"
      by simp
    moreover from polled(5) have "length (polls polled) < 5 \<longrightarrow>
        last (polls polled) \<noteq> Inr Unknown"
      by simp
    ultimately show ?thesis
      using eff new p polled(2) polled(4) False by simp
  qed
qed


text \<open>
  With a changed file there is the message and the reply, nothing else. On a clean tree
  the loop stops at the third poll when that one knows the mergeability, and after the
  fifth when none does.
\<close>

theorem updateBranch_polls_witness:
  "effects (snd (updateBranch dirtyHost updateRequest twoReviewers)) =
     [ShowErrorMessage changedFilesText True, ReplyMessage ''11'' ReplyEmpty] \<and>
   polls (effects (snd (updateBranch friendlyHost updateRequest twoReviewers))) =
     [Inr Unknown, Inr Unknown, Inr Mergeable] \<and>
   polls (effects (snd (updateBranch undecidedHost updateRequest twoReviewers))) =
     [Inr Unknown, Inr Unknown, Inr Unknown, Inr Unknown, Inr Unknown]"
proof -
  have a: "effects (snd (updateBranch dirtyHost updateRequest twoReviewers)) =
     [ShowErrorMessage changedFilesText True, ReplyMessage ''11'' ReplyEmpty]"
    using updateBranch_polls [where host = dirtyHost and message = updateRequest
        and this = twoReviewers]
    by (simp add: dirtyHost_def friendlyHost_def updateRequest_def twoReviewers_def)
  have b: "polls (effects (snd (updateBranch friendlyHost updateRequest twoReviewers))) =
     [Inr Unknown, Inr Unknown, Inr Mergeable]"
    using updateBranch_polls [where host = friendlyHost and message = updateRequest
        and this = twoReviewers]
    by (simp add: friendlyHost_def updateRequest_def twoReviewers_def updateBranch_def
          pollMergeability.simps emit_def isPoll_def Let_def)
  have c: "polls (effects (snd (updateBranch undecidedHost updateRequest twoReviewers))) =
     [Inr Unknown, Inr Unknown, Inr Unknown, Inr Unknown, Inr Unknown]"
    using updateBranch_polls [where host = undecidedHost and message = updateRequest
        and this = twoReviewers]
    by (simp add: undecidedHost_def friendlyHost_def updateRequest_def twoReviewers_def
          updateBranch_def pollMergeability.simps emit_def Let_def)
  from a b c show ?thesis
    by simp
qed

subsection \<open>Routing\<close>

text \<open>The two classes of the create view have no command in common.\<close>

lemma create_commands_disjoint:
  "c \<in> set BaseCreatePullRequestViewProvider_commands \<Longrightarrow>
     c \<notin> set CreatePullRequestViewProvider_commands"
  by (auto simp: BaseCreatePullRequestViewProvider_commands_def
        CreatePullRequestViewProvider_commands_def)

text \<open>What the handler of the base class of the create view does with a message that
  \<^verbatim>\<open>WebviewBase\<close> has not handled.\<close>

lemma BaseCreate_known:
  assumes "base_onDidReceiveMessage base message = Inr (MESSAGE_UNHANDLED base)"
      and "command message \<in> set BaseCreatePullRequestViewProvider_commands"
  shows "\<exists>handler. BaseCreatePullRequestViewProvider_onDidReceiveMessage base rejects message =
           (settle rejects handler, [Called handler])"
  using assms
  by (auto simp: BaseCreatePullRequestViewProvider_onDidReceiveMessage_def
        BaseCreatePullRequestViewProvider_commands_def)

lemma BaseCreate_unknown:
  assumes "base_onDidReceiveMessage base message = Inr (MESSAGE_UNHANDLED base)"
      and "command message \<notin> set BaseCreatePullRequestViewProvider_commands"
  shows "BaseCreatePullRequestViewProvider_onDidReceiveMessage base rejects message =
           (Inr (MESSAGE_UNHANDLED base), [])"
  using assms
  by (simp add: BaseCreatePullRequestViewProvider_onDidReceiveMessage_def
        BaseCreatePullRequestViewProvider_commands_def)

text \<open>What the create view does once its base class has not handled the message, and
  what it does when its base class has.\<close>

lemma Create_dispatch_known:
  assumes "BaseCreatePullRequestViewProvider_onDidReceiveMessage base rejects message =
             (Inr (MESSAGE_UNHANDLED base), routed)"
      and "command message \<in> set CreatePullRequestViewProvider_commands"
  shows "\<exists>handler. CreatePullRequestViewProvider_onDidReceiveMessage base rejects message =
           (settle rejects handler, routed @ [Called handler])"
  using assms
  by (auto simp: CreatePullRequestViewProvider_onDidReceiveMessage_def
        CreatePullRequestViewProvider_commands_def)

lemma Create_dispatch_unknown:
  assumes "BaseCreatePullRequestViewProvider_onDidReceiveMessage base rejects message =
             (Inr (MESSAGE_UNHANDLED base), routed)"
      and "command message \<notin> set CreatePullRequestViewProvider_commands"
  shows "CreatePullRequestViewProvider_onDidReceiveMessage base rejects message =
           (Inr js_undefined, routed @ [ErrorMessage ''Unsupported webview message''])"
  using assms
  by (simp add: CreatePullRequestViewProvider_onDidReceiveMessage_def
        CreatePullRequestViewProvider_commands_def)

lemma Create_handled:
  assumes "BaseCreatePullRequestViewProvider_onDidReceiveMessage base rejects message =
             (r, routed)"
      and "r \<noteq> Inr (MESSAGE_UNHANDLED base)"
  shows "snd (CreatePullRequestViewProvider_onDidReceiveMessage base rejects message) = routed"
  using assms
  by (auto simp: CreatePullRequestViewProvider_onDidReceiveMessage_def split: sum.splits)


text \<open>
  Claim C6. Each provider asks the handler of its base class first and looks at
  \<^verbatim>\<open>message.command\<close> only when that handler resolves to \<^verbatim>\<open>MESSAGE_UNHANDLED\<close>; a message
  is routed to at most one handler. In \<^verbatim>\<open>PullRequestViewProvider\<close> a command that is not
  among the cases does nothing at all. In \<^verbatim>\<open>CreatePullRequestViewProvider\<close>, whose base
  class \<^verbatim>\<open>BaseCreatePullRequestViewProvider\<close> is asked first and asks \<^verbatim>\<open>WebviewBase\<close> first
  in turn, a command that neither class has a case for produces the error message
  \<^verbatim>\<open>Unsupported webview message\<close> and calls no handler; a command of either class calls the
  handler of its case and produces no error message. For the create view
  \<^verbatim>\<open>MESSAGE_UNHANDLED\<close> is taken to be a string, as no handler resolves to a string.
\<close>

theorem onDidReceiveMessage_routing:
  fixes base :: "'a WebviewBase" and message :: "'a IRequestMessage"
    and rejects :: "CreateHandler \<Rightarrow> error option"
  defines "pr \<equiv> PullRequestViewProvider_onDidReceiveMessage base message"
      and "cpr \<equiv> CreatePullRequestViewProvider_onDidReceiveMessage base rejects message"
      and "unhandled \<equiv> (base_onDidReceiveMessage base message = Inr (MESSAGE_UNHANDLED base))"
  shows "(\<forall>result. base_onDidReceiveMessage base message = Inr result \<and>
                   result \<noteq> MESSAGE_UNHANDLED base \<longrightarrow>
            pr = Inr [] \<and>
            BaseCreatePullRequestViewProvider_onDidReceiveMessage base rejects message =
              (Inr js_undefined, [])) \<and>
         (\<forall>r routed.
            BaseCreatePullRequestViewProvider_onDidReceiveMessage base rejects message =
              (r, routed) \<and> r \<noteq> Inr (MESSAGE_UNHANDLED base) \<longrightarrow>
            snd cpr = routed) \<and>
         (\<forall>e. base_onDidReceiveMessage base message = Inl e \<longrightarrow>
            pr = Inl e \<and> cpr = (Inl e, [])) \<and>
         (\<forall>handlers. pr = Inr handlers \<longrightarrow> length handlers \<le> 1) \<and>
         (unhandled \<and> command message \<in> set PullRequestViewProvider_commands \<longrightarrow>
            (\<exists>handler. pr = Inr [handler])) \<and>
         (unhandled \<and> command message \<notin> set PullRequestViewProvider_commands \<longrightarrow>
            pr = Inr []) \<and>
         length (called (snd cpr)) \<le> 1 \<and>
         ((\<exists>s. MESSAGE_UNHANDLED base = js_string s) \<longrightarrow>
            (\<forall>result. base_onDidReceiveMessage base message = Inr result \<and>
                      result \<noteq> MESSAGE_UNHANDLED base \<longrightarrow> cpr = (Inr js_undefined, [])) \<and>
            length (snd cpr) \<le> 1 \<and>
            (unhandled \<and> command message \<in> set BaseCreatePullRequestViewProvider_commands \<longrightarrow>
               (\<exists>handler. snd cpr = [Called handler])) \<and>
            (unhandled \<and> command message \<in> set CreatePullRequestViewProvider_commands \<longrightarrow>
               (\<exists>handler. snd cpr = [Called handler])) \<and>
            (unhandled \<and>
             command message \<notin> set BaseCreatePullRequestViewProvider_commands \<and>
             command message \<notin> set CreatePullRequestViewProvider_commands \<longrightarrow>
               cpr = (Inr js_undefined, [ErrorMessage ''Unsupported webview message''])))"
proof -
  note pr_defs = pr_def PullRequestViewProvider_onDidReceiveMessage_def
  note cpr_defs = cpr_def CreatePullRequestViewProvider_onDidReceiveMessage_def
    BaseCreatePullRequestViewProvider_onDidReceiveMessage_def
  have p1: "pr = Inr []"
    if "base_onDidReceiveMessage base message = Inr result" "result \<noteq> MESSAGE_UNHANDLED base"
    for result
    using that by (simp add: pr_defs)
  have p2: "pr = Inl e \<and> cpr = (Inl e, [])"
    if "base_onDidReceiveMessage base message = Inl e" for e
    using that by (simp add: pr_defs cpr_defs)
  have p3: "length handlers \<le> 1" if "pr = Inr handlers" for handlers
    using that by (auto simp: pr_defs split: sum.splits if_splits)
  have p4: "\<exists>handler. pr = Inr [handler]"
    if "unhandled" "command message \<in> set PullRequestViewProvider_commands"
    using that by (auto simp: pr_defs unhandled_def PullRequestViewProvider_commands_def)
  have p5: "pr = Inr []"
    if "unhandled" "command message \<notin> set PullRequestViewProvider_commands"
    using that by (simp add: pr_defs unhandled_def PullRequestViewProvider_commands_def)
  have p6: "snd cpr = routed"
    if "BaseCreatePullRequestViewProvider_onDidReceiveMessage base rejects message = (r, routed)"
       "r \<noteq> Inr (MESSAGE_UNHANDLED base)" for r routed
    unfolding cpr_def using that by (rule Create_handled)
  have settled: "settle rejects handler \<noteq> Inr (js_string s)" for handler s
    by (simp add: settle_def split: option.splits)
  have base_handled: "BaseCreatePullRequestViewProvider_onDidReceiveMessage base rejects message
      = (Inr js_undefined, [])"
    if "base_onDidReceiveMessage base message = Inr result" "result \<noteq> MESSAGE_UNHANDLED base"
    for result
    using that by (simp add: BaseCreatePullRequestViewProvider_onDidReceiveMessage_def)
  have c0: "length (called (snd cpr)) \<le> 1"
  proof (cases "base_onDidReceiveMessage base message")
    case (Inl e)
    with p2 show ?thesis by simp
  next
    case (Inr result)
    show ?thesis
    proof (cases "result = MESSAGE_UNHANDLED base")
      case False
      note b = base_handled [OF Inr False]
      show ?thesis
      proof (cases "js_undefined = MESSAGE_UNHANDLED base")
        case False
        with b have "snd cpr = []"
          unfolding cpr_def by (intro Create_handled) auto
        then show ?thesis by simp
      next
        case True
        with b have b': "BaseCreatePullRequestViewProvider_onDidReceiveMessage base rejects message
            = (Inr (MESSAGE_UNHANDLED base), [])"
          by simp
        show ?thesis
        proof (cases "command message \<in> set CreatePullRequestViewProvider_commands")
          case True
          from Create_dispatch_known [OF b' True] show ?thesis
            by (auto simp: cpr_def)
        next
          case False
          from Create_dispatch_unknown [OF b' False] show ?thesis
            by (simp add: cpr_def)
        qed
      qed
    next
      case True
      with Inr have u: "base_onDidReceiveMessage base message = Inr (MESSAGE_UNHANDLED base)"
        by simp
      show ?thesis
      proof (cases "command message \<in> set BaseCreatePullRequestViewProvider_commands")
        case known: True
        from BaseCreate_known [OF u known, of rejects] obtain handler where
          b: "BaseCreatePullRequestViewProvider_onDidReceiveMessage base rejects message =
                (settle rejects handler, [Called handler])"
          by blast
        show ?thesis
        proof (cases "settle rejects handler = Inr (MESSAGE_UNHANDLED base)")
          case False
          from Create_handled [OF b False] show ?thesis
            by (simp add: cpr_def)
        next
          case True
          from Create_dispatch_unknown [OF b [unfolded True] create_commands_disjoint [OF known]]
          show ?thesis
            by (simp add: cpr_def)
        qed
      next
        case unknown: False
        have b: "BaseCreatePullRequestViewProvider_onDidReceiveMessage base rejects message =
                   (Inr (MESSAGE_UNHANDLED base), [])"
          by (rule BaseCreate_unknown [OF u unknown])
        show ?thesis
        proof (cases "command message \<in> set CreatePullRequestViewProvider_commands")
          case True
          from Create_dispatch_known [OF b True] show ?thesis
            by (auto simp: cpr_def)
        next
          case False
          from Create_dispatch_unknown [OF b False] show ?thesis
            by (simp add: cpr_def)
        qed
      qed
    qed
  qed
  have c: "(\<forall>result. base_onDidReceiveMessage base message = Inr result \<and>
                      result \<noteq> MESSAGE_UNHANDLED base \<longrightarrow> cpr = (Inr js_undefined, [])) \<and>
            length (snd cpr) \<le> 1 \<and>
            (unhandled \<and> command message \<in> set BaseCreatePullRequestViewProvider_commands \<longrightarrow>
               (\<exists>handler. snd cpr = [Called handler])) \<and>
            (unhandled \<and> command message \<in> set CreatePullRequestViewProvider_commands \<longrightarrow>
               (\<exists>handler. snd cpr = [Called handler])) \<and>
            (unhandled \<and>
             command message \<notin> set BaseCreatePullRequestViewProvider_commands \<and>
             command message \<notin> set CreatePullRequestViewProvider_commands \<longrightarrow>
               cpr = (Inr js_undefined, [ErrorMessage ''Unsupported webview message'']))"
    if sentinel: "MESSAGE_UNHANDLED base = js_string s" for s
  proof -
    have c1: "cpr = (Inr js_undefined, [])"
      if "base_onDidReceiveMessage base message = Inr result"
         "result \<noteq> MESSAGE_UNHANDLED base" for result
      using base_handled [OF that] sentinel
      by (simp add: cpr_def CreatePullRequestViewProvider_onDidReceiveMessage_def)
    have c3: "\<exists>handler. snd cpr = [Called handler]"
      if "unhandled" "command message \<in> set BaseCreatePullRequestViewProvider_commands"
    proof -
      from BaseCreate_known [OF that(1) [unfolded unhandled_def] that(2), of rejects]
      obtain handler where
        b: "BaseCreatePullRequestViewProvider_onDidReceiveMessage base rejects message =
              (settle rejects handler, [Called handler])"
        by blast
      have "settle rejects handler \<noteq> Inr (MESSAGE_UNHANDLED base)"
        using settled sentinel by simp
      from Create_handled [OF b this] show ?thesis
        by (simp add: cpr_def)
    qed
    have c4: "\<exists>handler. snd cpr = [Called handler]"
      if "unhandled" "command message \<in> set CreatePullRequestViewProvider_commands"
    proof -
      from that(2) have "command message \<notin> set BaseCreatePullRequestViewProvider_commands"
        using create_commands_disjoint by blast
      from BaseCreate_unknown [OF that(1) [unfolded unhandled_def] this, of rejects]
      have b: "BaseCreatePullRequestViewProvider_onDidReceiveMessage base rejects message =
                 (Inr (MESSAGE_UNHANDLED base), [])" .
      from Create_dispatch_known [OF b that(2)] show ?thesis
        by (auto simp: cpr_def)
    qed
    have c5: "cpr = (Inr js_undefined, [ErrorMessage ''Unsupported webview message''])"
      if "unhandled" "command message \<notin> set BaseCreatePullRequestViewProvider_commands"
         "command message \<notin> set CreatePullRequestViewProvider_commands"
    proof -
      from BaseCreate_unknown [OF that(1) [unfolded unhandled_def] that(2), of rejects]
      have b: "BaseCreatePullRequestViewProvider_onDidReceiveMessage base rejects message =
                 (Inr (MESSAGE_UNHANDLED base), [])" .
      from Create_dispatch_unknown [OF b that(3)] show ?thesis
        by (simp add: cpr_def)
    qed
    have c2: "length (snd cpr) \<le> 1"
    proof (cases "base_onDidReceiveMessage base message")
      case (Inl e)
      with p2 show ?thesis by simp
    next
      case (Inr result)
      show ?thesis
      proof (cases "result = MESSAGE_UNHANDLED base")
        case False
        from c1 [OF Inr False] show ?thesis by simp
      next
        case True
        with Inr have u: unhandled
          by (simp add: unhandled_def)
        show ?thesis
        proof (cases "command message \<in> set BaseCreatePullRequestViewProvider_commands")
          case True
          from c3 [OF u True] show ?thesis by auto
        next
          case notBase: False
          show ?thesis
          proof (cases "command message \<in> set CreatePullRequestViewProvider_commands")
            case True
            from c4 [OF u True] show ?thesis by auto
          next
            case False
            from c5 [OF u notBase False] show ?thesis by simp
          qed
        qed
      qed
    qed
    from c1 c2 c3 c4 c5 show ?thesis
      by blast
  qed
  from p1 base_handled have p1': "pr = Inr [] \<and>
      BaseCreatePullRequestViewProvider_onDidReceiveMessage base rejects message =
        (Inr js_undefined, [])"
    if "base_onDidReceiveMessage base message = Inr result" "result \<noteq> MESSAGE_UNHANDLED base"
    for result
    using that by blast
  from p1' p6 p2 p3 p4 p5 c0 c show ?thesis
    by blast
qed


text \<open>
  With a base class that handles \<^verbatim>\<open>ready\<close>: the active pull request view routes
  \<^verbatim>\<open>pr.merge\<close> to one handler and ignores \<^verbatim>\<open>ready\<close> and an unknown command; the create view
  routes a command of its base class and one of its own to one handler each, leaves
  \<^verbatim>\<open>ready\<close> to the base class, and answers an unknown command with the error message.
\<close>

theorem onDidReceiveMessage_routing_witness:
  "PullRequestViewProvider_onDidReceiveMessage readyBase (messageWith ''pr.merge'') =
     Inr [pr_mergePullRequest] \<and>
   PullRequestViewProvider_onDidReceiveMessage readyBase (messageWith ''ready'') = Inr [] \<and>
   PullRequestViewProvider_onDidReceiveMessage readyBase (messageWith ''pr.unknown'') = Inr [] \<and>
   snd (CreatePullRequestViewProvider_onDidReceiveMessage readyBase neverRejects
          (messageWith ''pr.create'')) = [Called cpr_create] \<and>
   snd (CreatePullRequestViewProvider_onDidReceiveMessage readyBase neverRejects
          (messageWith ''pr.preReview'')) = [Called cpr_preReview] \<and>
   CreatePullRequestViewProvider_onDidReceiveMessage readyBase neverRejects
     (messageWith ''ready'') = (Inr js_undefined, []) \<and>
   CreatePullRequestViewProvider_onDidReceiveMessage readyBase neverRejects
     (messageWith ''pr.unknown'') =
     (Inr js_undefined, [ErrorMessage ''Unsupported webview message''])"
proof -
  note defs = readyBase_def messageWith_def neverRejects_def
    PullRequestViewProvider_commands_def BaseCreatePullRequestViewProvider_commands_def
    CreatePullRequestViewProvider_commands_def
  note run = PullRequestViewProvider_onDidReceiveMessage_def
    CreatePullRequestViewProvider_onDidReceiveMessage_def
    BaseCreatePullRequestViewProvider_onDidReceiveMessage_def settle_def
  have a: "PullRequestViewProvider_onDidReceiveMessage readyBase (messageWith ''pr.merge'') =
     Inr [pr_mergePullRequest]"
    using onDidReceiveMessage_routing [where base = readyBase
        and message = "messageWith ''pr.merge''" and rejects = neverRejects]
    by (simp add: defs run)
  have b: "PullRequestViewProvider_onDidReceiveMessage readyBase (messageWith ''ready'') = Inr []"
    using onDidReceiveMessage_routing [where base = readyBase
        and message = "messageWith ''ready''" and rejects = neverRejects]
    by (simp add: defs)
  have c: "PullRequestViewProvider_onDidReceiveMessage readyBase (messageWith ''pr.unknown'') =
     Inr []"
    using onDidReceiveMessage_routing [where base = readyBase
        and message = "messageWith ''pr.unknown''" and rejects = neverRejects]
    by (simp add: defs)
  have d: "snd (CreatePullRequestViewProvider_onDidReceiveMessage readyBase neverRejects
          (messageWith ''pr.create'')) = [Called cpr_create]"
    using onDidReceiveMessage_routing [where base = readyBase
        and message = "messageWith ''pr.create''" and rejects = neverRejects]
    by (simp add: defs run)
  have e: "snd (CreatePullRequestViewProvider_onDidReceiveMessage readyBase neverRejects
          (messageWith ''pr.preReview'')) = [Called cpr_preReview]"
    using onDidReceiveMessage_routing [where base = readyBase
        and message = "messageWith ''pr.preReview''" and rejects = neverRejects]
    by (simp add: defs run)
  have f: "CreatePullRequestViewProvider_onDidReceiveMessage readyBase neverRejects
     (messageWith ''ready'') = (Inr js_undefined, [])"
    using onDidReceiveMessage_routing [where base = readyBase
        and message = "messageWith ''ready''" and rejects = neverRejects]
    by (simp add: defs)
  have g: "CreatePullRequestViewProvider_onDidReceiveMessage readyBase neverRejects
     (messageWith ''pr.unknown'') =
     (Inr js_undefined, [ErrorMessage ''Unsupported webview message''])"
    using onDidReceiveMessage_routing [where base = readyBase
        and message = "messageWith ''pr.unknown''" and rejects = neverRejects]
    by (simp add: defs)
  from a b c d e f g show ?thesis
    by simp
qed

end
